theory Spec2Isabelle
  imports Main "HOL-Library.Char_ord" "HOL-Library.List_Lexorder"
begin

section \<open>JavaScript values\<close>

text \<open>
  The workers exchange JSON documents. A value is one of the JSON forms, or
  \<open>Undefined\<close> (a missing property, an unset variable). Numbers are integers:
  fractional numbers are not modelled. An object is its list of properties, in order.
\<close>

datatype jsv =
    Undefined
  | Null
  | Bool bool
  | Num int
  | Str string
  | Arr "jsv list"
  | Obj "(string \<times> jsv) list"

text \<open>A thrown value: every throw site of the sources throws an Error object.\<close>

datatype js_error = JsError (ename: string) (message: string)

text \<open>
  \<open>error.stack\<close>: V8 starts it with the text of the error, \<open>name: message\<close> (the
  name alone when the message is empty, the message alone when the name is), and adds one
  line for each frame of the call stack at the point where the error was made. The frame
  lines are the runtime's: \<open>frames e\<close> is what it adds for the error \<open>e\<close>.
\<close>

definition stack :: "(js_error \<Rightarrow> string) \<Rightarrow> js_error \<Rightarrow> string" where
  "stack frames e =
     (if message e = [] then ename e
      else if ename e = [] then message e
      else ename e @ '': '' @ message e) @ frames e"

fun truthy :: "jsv \<Rightarrow> bool" where
  "truthy Undefined = False"
| "truthy Null = False"
| "truthy (Bool b) = b"
| "truthy (Num n) = (n \<noteq> 0)"
| "truthy (Str s) = (s \<noteq> [])"
| "truthy (Arr xs) = True"
| "truthy (Obj ps) = True"

fun nullish :: "jsv \<Rightarrow> bool" where
  "nullish Undefined = True"
| "nullish Null = True"
| "nullish v = False"

text \<open>\<open>a || b\<close>\<close>

definition js_or :: "jsv \<Rightarrow> jsv \<Rightarrow> jsv" where
  "js_or a b = (if truthy a then a else b)"

text \<open>\<open>typeof v\<close> as V8 names it in its messages (\<open>null\<close> and \<open>undefined\<close> by name).\<close>

fun nullish_name :: "jsv \<Rightarrow> string" where
  "nullish_name Null = ''null''"
| "nullish_name v = ''undefined''"

definition cannot_read :: "jsv \<Rightarrow> string \<Rightarrow> js_error" where
  "cannot_read v k = JsError ''TypeError''
     (''Cannot read properties of '' @ nullish_name v @ '' (reading '' @ [CHR 0x27] @ k @ [CHR 0x27] @ '')'')"

definition not_a_function :: "string \<Rightarrow> js_error" where
  "not_a_function k = JsError ''TypeError'' (k @ '' is not a function'')"

definition cannot_convert :: js_error where
  "cannot_convert = JsError ''TypeError'' ''Cannot convert object to primitive value''"

subsection \<open>Decimal numerals\<close>

definition digit_char :: "nat \<Rightarrow> char" where
  "digit_char d = char_of (48 + d)"

fun decimal :: "nat \<Rightarrow> string" where
  "decimal n = (if n < 10 then [digit_char n] else decimal (n div 10) @ [digit_char (n mod 10)])"

declare decimal.simps [simp del]

text \<open>
  \<open>v.k\<close> and \<open>v[k]\<close> for a data property \<open>k\<close>: reading a property of null or
  undefined throws; an array or a string has its \<open>length\<close> and its elements under
  their decimal index; anything else that is missing is undefined.
\<close>

definition index_of :: "string \<Rightarrow> nat \<Rightarrow> nat option" where
  "index_of k n = find (\<lambda>i. decimal i = k) [0..<n]"

fun get :: "jsv \<Rightarrow> string \<Rightarrow> js_error + jsv" where
  "get Undefined k = Inl (cannot_read Undefined k)"
| "get Null k = Inl (cannot_read Null k)"
| "get (Obj ps) k = Inr (case map_of ps k of Some v \<Rightarrow> v | None \<Rightarrow> Undefined)"
| "get (Arr xs) k =
     Inr (if k = ''length'' then Num (int (length xs))
          else (case index_of k (length xs) of Some i \<Rightarrow> xs ! i | None \<Rightarrow> Undefined))"
| "get (Str s) k =
     Inr (if k = ''length'' then Num (int (length s))
          else (case index_of k (length s) of Some i \<Rightarrow> Str [s ! i] | None \<Rightarrow> Undefined))"
| "get v k = Inr Undefined"

text \<open>\<open>v?.k\<close> and \<open>v?.[k]\<close>\<close>

definition opt_prop :: "jsv \<Rightarrow> string \<Rightarrow> jsv" where
  "opt_prop v k = (if nullish v then Undefined else (case get v k of Inr x \<Rightarrow> x | Inl e \<Rightarrow> Undefined))"

text \<open>One step of a chain of reads, each of which may throw.\<close>

definition thenE :: "js_error + 'a \<Rightarrow> ('a \<Rightarrow> js_error + 'b) \<Rightarrow> js_error + 'b" where
  "thenE r f = (case r of Inl e \<Rightarrow> Inl e | Inr x \<Rightarrow> f x)"

fun mapE :: "('a \<Rightarrow> js_error + 'b) \<Rightarrow> 'a list \<Rightarrow> js_error + 'b list" where
  "mapE f [] = Inr []"
| "mapE f (x # xs) = thenE (f x) (\<lambda>y. thenE (mapE f xs) (\<lambda>ys. Inr (y # ys)))"

text \<open>
  \<open>v.map(f)\<close>, \<open>name\<close> being the source text of \<open>v.map\<close>: only an array has
  the method; on any other value the call throws.
\<close>

definition array_map :: "jsv \<Rightarrow> string \<Rightarrow> (jsv \<Rightarrow> js_error + jsv) \<Rightarrow> js_error + jsv list" where
  "array_map v name f =
     (case v of
        Arr xs \<Rightarrow> mapE f xs
      | Undefined \<Rightarrow> Inl (cannot_read v ''map'')
      | Null \<Rightarrow> Inl (cannot_read v ''map'')
      | _ \<Rightarrow> Inl (not_a_function name))"

subsection \<open>Conversion to text\<close>

definition show_int :: "int \<Rightarrow> string" where
  "show_int i = (if i < 0 then ''-'' @ decimal (nat (- i)) else decimal (nat i))"

fun intercalate :: "string \<Rightarrow> string list \<Rightarrow> string" where
  "intercalate sep [] = []"
| "intercalate sep [x] = x"
| "intercalate sep (x # y # ys) = x @ sep @ intercalate sep (y # ys)"

text \<open>
  The text of a value, as a template literal \<open>`${v}`\<close>, a computed property name
  \<open>o[v]\<close> and \<open>Array.prototype.join\<close> make it; inside an array, null and undefined
  elements give the empty string. \<open>to_str\<close> is the text when the conversion returns;
  \<open>to_text\<close> below is the conversion, which may throw.
\<close>

function to_str :: "jsv \<Rightarrow> string" and elem_str :: "jsv \<Rightarrow> string" where
  "to_str Undefined = ''undefined''"
| "to_str Null = ''null''"
| "to_str (Bool b) = (if b then ''true'' else ''false'')"
| "to_str (Num n) = show_int n"
| "to_str (Str s) = s"
| "to_str (Arr xs) = intercalate '','' (map elem_str xs)"
| "to_str (Obj ps) = ''[object Object]''"
| "elem_str v = (if nullish v then [] else to_str v)"
  by pat_completeness auto
termination
  by (relation "measure (\<lambda>x. case x of Inl v \<Rightarrow> 2 * size v | Inr v \<Rightarrow> 2 * size v + 1)")
     (auto simp: less_Suc_eq_le dest!: size_list_estimation'[where f = size, OF _ order_refl])

text \<open>
  The conversion of an object calls its \<open>toString\<close>. An object read from JSON has
  \<open>Object.prototype.toString\<close>, unless it has a property of that name of its own: that
  one is data, not a function, \<open>valueOf\<close> gives no primitive either, and the conversion
  throws a TypeError. An array converts its elements in turn.
\<close>

fun printable :: "jsv \<Rightarrow> bool" where
  "printable (Arr xs) = list_all printable xs"
| "printable (Obj ps) = (map_of ps ''toString'' = None)"
| "printable v = True"

definition to_text :: "jsv \<Rightarrow> js_error + string" where
  "to_text v = (if printable v then Inr (to_str v) else Inl cannot_convert)"

text \<open>\<open>xs.join(sep)\<close> on the elements of an array, and \<open>v.join(sep)\<close> on any value (\<open>js_join\<close>).\<close>

definition join_list :: "string \<Rightarrow> jsv list \<Rightarrow> js_error + string" where
  "join_list sep xs =
     (if list_all printable xs then Inr (intercalate sep (map elem_str xs)) else Inl cannot_convert)"

definition js_join :: "jsv \<Rightarrow> string \<Rightarrow> string \<Rightarrow> js_error + string" where
  "js_join v name sep =
     (case v of
        Arr xs \<Rightarrow> join_list sep xs
      | Undefined \<Rightarrow> Inl (cannot_read v ''join'')
      | Null \<Rightarrow> Inl (cannot_read v ''join'')
      | _ \<Rightarrow> Inl (not_a_function name))"

text \<open>
  \<open>v?.substring(0, n)\<close>, \<open>name\<close> being the source text of the method read: only a
  text has the method.
\<close>

definition opt_substring :: "jsv \<Rightarrow> string \<Rightarrow> nat \<Rightarrow> js_error + jsv" where
  "opt_substring v name n =
     (case v of
        Undefined \<Rightarrow> Inr Undefined
      | Null \<Rightarrow> Inr Undefined
      | Str s \<Rightarrow> Inr (Str (take n s))
      | _ \<Rightarrow> Inl (not_a_function name))"

text \<open>
  \<open>JSON.stringify(v)\<close>: compact output; a property whose value is undefined is
  left out, an undefined array element is written \<open>null\<close>. At the top level
  \<open>JSON.stringify(undefined)\<close> is undefined, which a template literal prints as
  \<open>undefined\<close>.
\<close>

definition hex_char :: "nat \<Rightarrow> char" where
  "hex_char d = (if d < 10 then char_of (48 + d) else char_of (87 + d))"

definition quote_char :: "char \<Rightarrow> string" where
  "quote_char c =
     (if c = CHR 0x22 then [CHR 0x5C, CHR 0x22]
      else if c = CHR 0x5C then [CHR 0x5C, CHR 0x5C]
      else if c = CHR 0x08 then [CHR 0x5C, CHR ''b'']
      else if c = CHR 0x09 then [CHR 0x5C, CHR ''t'']
      else if c = CHR 0x0A then [CHR 0x5C, CHR ''n'']
      else if c = CHR 0x0C then [CHR 0x5C, CHR ''f'']
      else if c = CHR 0x0D then [CHR 0x5C, CHR ''r'']
      else if of_char c < (32 :: nat)
        then [CHR 0x5C, CHR ''u'', CHR ''0'', CHR ''0'',
              hex_char (of_char c div 16), hex_char (of_char c mod 16)]
      else [c])"

definition quote :: "string \<Rightarrow> string" where
  "quote s = [CHR 0x22] @ concat (map quote_char s) @ [CHR 0x22]"

function stringify :: "jsv \<Rightarrow> string" and stringify_item :: "jsv \<Rightarrow> string" where
  "stringify Undefined = ''undefined''"
| "stringify Null = ''null''"
| "stringify (Bool b) = (if b then ''true'' else ''false'')"
| "stringify (Num n) = show_int n"
| "stringify (Str s) = quote s"
| "stringify (Arr xs) = ''['' @ intercalate '','' (map stringify_item xs) @ '']''"
| "stringify (Obj ps) =
     ''{'' @ intercalate '','' (map (\<lambda>p. quote (fst p) @ '':'' @ stringify_item (snd p))
                                  (filter (\<lambda>p. snd p \<noteq> Undefined) ps)) @ ''}''"
| "stringify_item v = (if v = Undefined then ''null'' else stringify v)"
  by pat_completeness auto
termination
proof (relation "measure (\<lambda>x. case x of Inl v \<Rightarrow> 2 * size v | Inr v \<Rightarrow> 2 * size v + 1)",
       goal_cases)
  case 1
  show ?case by simp
next
  case (2 xs x)
  then have "size x \<le> size_list size xs" by (simp add: size_list_estimation')
  then show ?case by simp
next
  case (3 ps p)
  then have "p \<in> set ps" by simp
  then have "size_prod (\<lambda>_. 0) size p \<le> size_list (size_prod (\<lambda>_. 0) size) ps"
    by (simp add: size_list_estimation')
  moreover have "size (snd p) \<le> size_prod (\<lambda>_. 0) size p" by (cases p) simp
  ultimately show ?case by simp
next
  case (4 v)
  show ?case by simp
qed

text \<open>
  What a receiver reads back from \<open>JSON.stringify(v)\<close>: properties with an
  undefined value are gone, undefined array elements are null.
\<close>

function wire :: "jsv \<Rightarrow> jsv" and wire_item :: "jsv \<Rightarrow> jsv" where
  "wire (Arr xs) = Arr (map wire_item xs)"
| "wire (Obj ps) = Obj (map (\<lambda>p. (fst p, wire_item (snd p))) (filter (\<lambda>p. snd p \<noteq> Undefined) ps))"
| "wire Undefined = Undefined"
| "wire Null = Null"
| "wire (Bool b) = Bool b"
| "wire (Num n) = Num n"
| "wire (Str s) = Str s"
| "wire_item v = (if v = Undefined then Null else wire v)"
  by pat_completeness auto
termination
proof (relation "measure (\<lambda>x. case x of Inl v \<Rightarrow> 2 * size v | Inr v \<Rightarrow> 2 * size v + 1)",
       goal_cases)
  case 1
  show ?case by simp
next
  case (2 xs x)
  then have "size x \<le> size_list size xs" by (simp add: size_list_estimation')
  then show ?case by simp
next
  case (3 ps p)
  then have "p \<in> set ps" by simp
  then have "size_prod (\<lambda>_. 0) size p \<le> size_list (size_prod (\<lambda>_. 0) size) ps"
    by (simp add: size_list_estimation')
  moreover have "size (snd p) \<le> size_prod (\<lambda>_. 0) size p" by (cases p) simp
  ultimately show ?case by simp
next
  case (4 v)
  show ?case by simp
qed

section \<open>The environment: clock, durable store, collaborators\<close>

text \<open>
  \<open>fetch\<close> either rejects (the connection fails) or resolves to a response.
  Reading the body may fail; \<open>parsed\<close> is what \<open>JSON.parse\<close> makes of the text.
\<close>

record http_response =
  code :: nat
  body_text :: "js_error + string"
  parsed :: "js_error + jsv"

datatype outcome = Rejected js_error | Responded http_response

definition ok :: "http_response \<Rightarrow> bool" where
  "ok r = (200 \<le> code r \<and> code r \<le> 299)"

text \<open>
  An outbound call. A call to the durable store is kept as sent: URL, the
  \<open>apikey\<close> header, the body before \<open>JSON.stringify\<close>. A call to another
  collaborator is kept by its call site and the values the source puts into the URL,
  the headers and the body; the fixed texts around them (addresses, headers, model name)
  are functions of these values. \<open>NotionQuery token databaseId platform\<close>,
  \<open>NotionSearch token query\<close>, \<open>NotionBlocks token pageId\<close> (the identifier as the
  text put into the URL), \<open>AnthropicMessages apiKey userPrompt systemPrompt\<close>,
  \<open>ResendEmail apiKey payload\<close>.
\<close>

datatype request =
    StorePost string string jsv
  | StorePatch string string jsv
  | StoreGet string string
  | NotionQuery jsv jsv jsv
  | NotionSearch jsv jsv
  | NotionBlocks jsv string
  | AnthropicMessages jsv string string
  | ResendEmail jsv jsv

fun is_store_request :: "request \<Rightarrow> bool" where
  "is_store_request (StorePost url key body) = True"
| "is_store_request (StorePatch url key body) = True"
| "is_store_request (StoreGet url key) = True"
| "is_store_request r = False"

subsection \<open>The durable store\<close>

text \<open>
  The tables \<open>agent_executions\<close> and \<open>conversations\<close> behind a REST interface:
  create (insert one row, answer 201 with the created row), partial update by id
  (answer 204) and lookup. The workers only reach it through \<open>fetch\<close>; this is the
  contract the sources rely on (\<open>Prefer: return=representation\<close>, \<open>id=eq.\<close>,
  \<open>order=created_at.desc&limit=1\<close>). An update is addressed by \<open>id=eq.\<close> and
  the identifier the store gave to the row, recognised as it stands.
\<close>

record execution =
  exec_id :: string
  conversation_id :: jsv
  agent_id :: jsv
  exec_input :: jsv
  form_type :: jsv
  exec_output :: jsv
  status :: jsv
  error_message :: jsv
  duration_ms :: jsv
  created_at :: jsv

record conversation =
  conv_id :: string
  user_id :: jsv
  conv_status :: jsv
  conv_created_at :: jsv

datatype store_event =
    Created execution
  | Updated string "(string \<times> jsv) list"
  | Opened conversation

text \<open>
  \<open>mint n\<close> is the identifier the store gives to the \<open>n\<close>-th row of a table.
  \<open>outages\<close> says, call by call, whether the store serves the call (\<open>None\<close>) or
  does not, and what the caller gets instead; past its end the store serves.
  \<open>journal\<close> lists the writes the store has performed.
\<close>

record store =
  base_url :: string
  api_key :: string
  executions :: "execution list"
  conversations :: "conversation list"
  mint :: "nat \<Rightarrow> string"
  outages :: "outcome option list"
  journal :: "store_event list"

definition column :: "(string \<times> jsv) list \<Rightarrow> string \<Rightarrow> jsv" where
  "column ps k = (case map_of ps k of Some v \<Rightarrow> v | None \<Rightarrow> Null)"

definition over :: "(string \<times> jsv) list \<Rightarrow> string \<Rightarrow> jsv \<Rightarrow> jsv" where
  "over ps k old = (case map_of ps k of Some v \<Rightarrow> v | None \<Rightarrow> old)"

definition new_execution :: "string \<Rightarrow> (string \<times> jsv) list \<Rightarrow> execution" where
  "new_execution i ps =
     \<lparr>exec_id = i, conversation_id = column ps ''conversation_id'',
      agent_id = column ps ''agent_id'', exec_input = column ps ''input'',
      form_type = column ps ''form_type'', exec_output = column ps ''output'',
      status = column ps ''status'', error_message = column ps ''error_message'',
      duration_ms = column ps ''duration_ms'', created_at = column ps ''created_at''\<rparr>"

definition patched :: "(string \<times> jsv) list \<Rightarrow> execution \<Rightarrow> execution" where
  "patched ps r =
     r\<lparr>conversation_id := over ps ''conversation_id'' (conversation_id r),
       agent_id := over ps ''agent_id'' (agent_id r), exec_input := over ps ''input'' (exec_input r),
       form_type := over ps ''form_type'' (form_type r), exec_output := over ps ''output'' (exec_output r),
       status := over ps ''status'' (status r),
       error_message := over ps ''error_message'' (error_message r),
       duration_ms := over ps ''duration_ms'' (duration_ms r),
       created_at := over ps ''created_at'' (created_at r)\<rparr>"

definition execution_json :: "execution \<Rightarrow> jsv" where
  "execution_json r =
     Obj [(''id'', Str (exec_id r)), (''conversation_id'', conversation_id r),
          (''agent_id'', agent_id r), (''input'', exec_input r), (''form_type'', form_type r),
          (''output'', exec_output r), (''status'', status r),
          (''error_message'', error_message r), (''duration_ms'', duration_ms r),
          (''created_at'', created_at r)]"

definition new_conversation :: "string \<Rightarrow> (string \<times> jsv) list \<Rightarrow> conversation" where
  "new_conversation i ps =
     \<lparr>conv_id = i, user_id = column ps ''user_id'', conv_status = column ps ''status'',
      conv_created_at = column ps ''created_at''\<rparr>"

definition conversation_json :: "conversation \<Rightarrow> jsv" where
  "conversation_json c =
     Obj [(''id'', Str (conv_id c)), (''user_id'', user_id c), (''status'', conv_status c),
          (''created_at'', conv_created_at c)]"

definition exec_table :: "store \<Rightarrow> string" where
  "exec_table s = base_url s @ ''/rest/v1/agent_executions''"

definition conv_table :: "store \<Rightarrow> string" where
  "conv_table s = base_url s @ ''/rest/v1/conversations''"

definition exec_by_id :: "store \<Rightarrow> string \<Rightarrow> string" where
  "exec_by_id s i = exec_table s @ ''?id=eq.'' @ i"

definition active_of_user :: "store \<Rightarrow> string \<Rightarrow> string" where
  "active_of_user s u =
     conv_table s @ ''?user_id=eq.'' @ u @ ''&status=eq.active&order=created_at.desc&limit=1''"

definition answer :: "nat \<Rightarrow> jsv \<Rightarrow> outcome" where
  "answer c v = Responded \<lparr>code = c, body_text = Inr (stringify v), parsed = Inr v\<rparr>"

definition no_content :: outcome where
  "no_content = Responded \<lparr>code = 204, body_text = Inr [],
     parsed = Inl (JsError ''SyntaxError'' ''Unexpected end of JSON input'')\<rparr>"

definition refusal :: "nat \<Rightarrow> string \<Rightarrow> outcome" where
  "refusal c m = answer c (Obj [(''message'', Str m)])"

definition unreachable :: outcome where
  "unreachable = Rejected (JsError ''TypeError'' ''fetch failed'')"

text \<open>
  A lookup in the table of conversations, as the REST interface reads it. Of the URL the
  store gets the part before the first \<open>#\<close>: a fragment is not sent. After the address
  of the table and \<open>?\<close>, the query is a list of parameters separated by \<open>&\<close>, each
  a name and a value separated by the first \<open>=\<close>. \<open>column=eq.text\<close> keeps the rows
  whose column is that text, \<open>order=created_at.desc\<close> puts the newest row first,
  \<open>limit=n\<close> keeps the first \<open>n\<close> rows; a query with any other parameter is
  refused. Escapes in a query (\<open>%xx\<close>, \<open>+\<close>) are not modelled: a text is compared as
  it arrives.
\<close>

fun split_on :: "char \<Rightarrow> string \<Rightarrow> string list" where
  "split_on c [] = [] # []"
| "split_on c (x # xs) =
     (if x = c then [] # split_on c xs
      else (case split_on c xs of p # ps \<Rightarrow> (x # p) # ps | [] \<Rightarrow> [x] # []))"

definition parameter :: "string \<Rightarrow> string \<times> string" where
  "parameter p =
     (takeWhile (\<lambda>x. x \<noteq> CHR ''='') p, drop 1 (dropWhile (\<lambda>x. x \<noteq> CHR ''='') p))"

definition query_of :: "string \<Rightarrow> (string \<times> string) list" where
  "query_of q =
     map parameter
       (filter (\<lambda>p. p \<noteq> []) (split_on CHR ''&'' (takeWhile (\<lambda>x. x \<noteq> CHR ''#'') q)))"

definition digit_of :: "char \<Rightarrow> nat option" where
  "digit_of c =
     (if (48 :: nat) \<le> of_char c \<and> of_char c \<le> (57 :: nat) then Some (of_char c - 48) else None)"

fun number_from :: "nat \<Rightarrow> string \<Rightarrow> nat option" where
  "number_from n [] = Some n"
| "number_from n (c # cs) =
     (case digit_of c of None \<Rightarrow> None | Some d \<Rightarrow> number_from (10 * n + d) cs)"

definition number :: "string \<Rightarrow> nat option" where
  "number s = (if s = [] then None else number_from 0 s)"

definition conv_column :: "conversation \<Rightarrow> string \<Rightarrow> jsv option" where
  "conv_column c k =
     (if k = ''id'' then Some (Str (conv_id c))
      else if k = ''user_id'' then Some (user_id c)
      else if k = ''status'' then Some (conv_status c)
      else if k = ''created_at'' then Some (conv_created_at c)
      else None)"

definition is_filter :: "string \<times> string \<Rightarrow> bool" where
  "is_filter p =
     (fst p \<in> set [''id'', ''user_id'', ''status'', ''created_at''] \<and> take 3 (snd p) = ''eq.'')"

definition understood :: "string \<times> string \<Rightarrow> bool" where
  "understood p =
     (is_filter p \<or> p = (''order'', ''created_at.desc'')
      \<or> (fst p = ''limit'' \<and> number (snd p) \<noteq> None))"

definition selects :: "(string \<times> string) list \<Rightarrow> conversation \<Rightarrow> bool" where
  "selects q c =
     list_all (\<lambda>p. conv_column c (fst p) = Some (Str (drop 3 (snd p)))) (filter is_filter q)"

definition newest_first :: "conversation list \<Rightarrow> conversation list" where
  "newest_first cs = rev (sort_key (\<lambda>c. to_str (conv_created_at c)) cs)"

definition ordered :: "(string \<times> string) list \<Rightarrow> conversation list \<Rightarrow> conversation list" where
  "ordered q cs = (if (''order'', ''created_at.desc'') \<in> set q then newest_first cs else cs)"

definition limited :: "(string \<times> string) list \<Rightarrow> conversation list \<Rightarrow> conversation list" where
  "limited q cs =
     (case map_of q ''limit'' of
        None \<Rightarrow> cs
      | Some v \<Rightarrow> (case number v of None \<Rightarrow> cs | Some n \<Rightarrow> take n cs))"

definition is_select :: "store \<Rightarrow> string \<Rightarrow> bool" where
  "is_select s url = (take (length (conv_table s @ ''?'')) url = conv_table s @ ''?'')"

definition is_update :: "store \<Rightarrow> string \<Rightarrow> bool" where
  "is_update s url =
     (take (length (exec_table s @ ''?id=eq.'')) url = exec_table s @ ''?id=eq.'')"

definition serve :: "request \<Rightarrow> store \<Rightarrow> outcome \<times> store" where
  "serve req s =
     (case req of
        StorePost url key body \<Rightarrow>
          if url \<noteq> exec_table s \<and> url \<noteq> conv_table s then (unreachable, s)
          else if key \<noteq> api_key s then (refusal 401 ''Invalid API key'', s)
          else (case wire body of
                  Obj ps \<Rightarrow>
                    if url = exec_table s
                    then (let r = new_execution (mint s (length (executions s))) ps
                          in (answer 201 (Arr [execution_json r]),
                              s\<lparr>executions := executions s @ [r],
                                journal := journal s @ [Created r]\<rparr>))
                    else (let c = new_conversation (mint s (length (conversations s))) ps
                          in (answer 201 (Arr [conversation_json c]),
                              s\<lparr>conversations := conversations s @ [c],
                                journal := journal s @ [Opened c]\<rparr>))
                | _ \<Rightarrow> (refusal 400 ''Bad request'', s))
      | StorePatch url key body \<Rightarrow>
          if \<not> is_update s url then (unreachable, s)
          else if key \<noteq> api_key s then (refusal 401 ''Invalid API key'', s)
          else (case wire body of
                  Obj ps \<Rightarrow>
                    (no_content,
                     s\<lparr>executions :=
                         map (\<lambda>r. if url = exec_by_id s (exec_id r) then patched ps r else r)
                           (executions s),
                       journal := journal s @
                         map (\<lambda>r. Updated (exec_id r) ps)
                           (filter (\<lambda>r. url = exec_by_id s (exec_id r)) (executions s))\<rparr>)
                | _ \<Rightarrow> (refusal 400 ''Bad request'', s))
      | StoreGet url key \<Rightarrow>
          if \<not> is_select s url then (unreachable, s)
          else if key \<noteq> api_key s then (refusal 401 ''Invalid API key'', s)
          else (let q = query_of (drop (length (conv_table s @ ''?'')) url)
                in if \<not> list_all understood q then (refusal 400 ''Bad request'', s)
                   else (answer 200
                           (Arr (map conversation_json
                                  (limited q (ordered q (filter (selects q) (conversations s)))))),
                         s))
      | _ \<Rightarrow> (unreachable, s))"

text \<open>Each call uses up the first entry of \<open>outages\<close>.\<close>

definition store_fetch :: "request \<Rightarrow> store \<Rightarrow> outcome \<times> store" where
  "store_fetch req s =
     (case outages s of
        Some out # rest \<Rightarrow> (out, s\<lparr>outages := rest\<rparr>)
      | _ \<Rightarrow> serve req (s\<lparr>outages := tl (outages s)\<rparr>))"

subsection \<open>The world seen by one worker\<close>

text \<open>
  \<open>wall n\<close> is the \<open>n\<close>-th reading of the wall clock (\<open>Date.now()\<close>,
  \<open>new Date()\<close>); \<open>iso\<close> is \<open>Date.prototype.toISOString\<close>. A collaborator
  other than the store answers from the calls it has received so far and the call at
  hand; \<open>collab_log\<close> lists the calls made to them. \<open>trace e\<close> is the frame lines
  the runtime puts into the \<open>stack\<close> of the error \<open>e\<close>.
\<close>

record world =
  wall :: "nat \<Rightarrow> int"
  tick :: nat
  iso :: "int \<Rightarrow> string"
  db :: store
  collab :: "request list \<Rightarrow> request \<Rightarrow> outcome"
  collab_log :: "request list"
  trace :: "js_error \<Rightarrow> string"

type_synonym 'a io = "world \<Rightarrow> (js_error + 'a) \<times> world"

definition ret :: "'a \<Rightarrow> 'a io" where
  "ret x w = (Inr x, w)"

definition throw :: "js_error \<Rightarrow> 'a io" where
  "throw e w = (Inl e, w)"

definition lift :: "js_error + 'a \<Rightarrow> 'a io" where
  "lift r w = (r, w)"

text \<open>\<open>const x = await m; f x\<close>\<close>

definition andThen :: "'a io \<Rightarrow> ('a \<Rightarrow> 'b io) \<Rightarrow> 'b io" where
  "andThen m f w = (case m w of (Inr x, w') \<Rightarrow> f x w' | (Inl e, w') \<Rightarrow> (Inl e, w'))"

text \<open>\<open>try { m } catch (error) { h error }\<close>\<close>

definition try_catch :: "'a io \<Rightarrow> (js_error \<Rightarrow> 'a io) \<Rightarrow> 'a io" where
  "try_catch m h w = (case m w of (Inr x, w') \<Rightarrow> (Inr x, w') | (Inl e, w') \<Rightarrow> h e w')"

definition date_now :: "int io" where
  "date_now w = (Inr (wall w (tick w)), w\<lparr>tick := Suc (tick w)\<rparr>)"

definition new_date_iso :: "jsv io" where
  "new_date_iso w = (Inr (Str (iso w (wall w (tick w)))), w\<lparr>tick := Suc (tick w)\<rparr>)"

definition deliver :: "outcome \<Rightarrow> world \<Rightarrow> (js_error + http_response) \<times> world" where
  "deliver out w = (case out of Rejected e \<Rightarrow> (Inl e, w) | Responded r \<Rightarrow> (Inr r, w))"

definition fetch :: "request \<Rightarrow> http_response io" where
  "fetch req w =
     (if is_store_request req
      then (case store_fetch req (db w) of (out, s) \<Rightarrow> deliver out (w\<lparr>db := s\<rparr>))
      else deliver (collab w (collab_log w) req) (w\<lparr>collab_log := collab_log w @ [req]\<rparr>))"

text \<open>\<open>await response.text()\<close>, \<open>await response.json()\<close>\<close>

definition read_text :: "http_response \<Rightarrow> string io" where
  "read_text r = lift (body_text r)"

definition read_json :: "http_response \<Rightarrow> jsv io" where
  "read_json r = lift (case body_text r of Inl e \<Rightarrow> Inl e | Inr t \<Rightarrow> parsed r)"

section \<open>Execution logger (src/lib/supabase.js)\<close>

text \<open>
  The address and the headers of a call are texts made of the arguments
  (\<open>`${supabaseUrl}/rest/v1/...`\<close>, \<open>`Bearer ${supabaseKey}`\<close>); making them is
  part of the try block.

  \<open>extra\<close> holds the properties a copy of the function adds to the log entry: none
  in the shared library; Nova's own copy adds \<open>form_type: null\<close>.
\<close>

definition log_entry :: "(string \<times> jsv) list \<Rightarrow> jsv \<Rightarrow> jsv \<Rightarrow> jsv \<Rightarrow> jsv \<Rightarrow> jsv" where
  "log_entry extra conversationId agentId inp createdAt =
     Obj ([(''conversation_id'', js_or conversationId Null), (''agent_id'', agentId),
           (''input'', inp)] @ extra @
          [(''status'', Str ''running''), (''created_at'', createdAt)])"

definition logExecutionStart_with ::
  "(string \<times> jsv) list \<Rightarrow> jsv \<Rightarrow> jsv \<Rightarrow> jsv \<Rightarrow> jsv \<Rightarrow> jsv \<Rightarrow> jsv io" where
  "logExecutionStart_with extra supabaseUrl supabaseKey conversationId agentId inp =
     try_catch
       (andThen new_date_iso (\<lambda>createdAt.
        andThen (lift (to_text supabaseUrl)) (\<lambda>url.
        andThen (lift (to_text supabaseKey)) (\<lambda>key.
        andThen (fetch (StorePost (url @ ''/rest/v1/agent_executions'') key
                          (log_entry extra conversationId agentId inp createdAt))) (\<lambda>response.
        if \<not> ok response
        then andThen (read_text response) (\<lambda>t. ret Null)
        else andThen (read_json response) (\<lambda>result.
             andThen (lift (get result ''0'')) (\<lambda>row.
             ret (js_or (opt_prop row ''id'') Null))))))))
       (\<lambda>error. ret Null)"

definition logExecutionStart :: "jsv \<Rightarrow> jsv \<Rightarrow> jsv \<Rightarrow> jsv \<Rightarrow> jsv \<Rightarrow> jsv io" where
  "logExecutionStart = logExecutionStart_with []"

definition logExecutionComplete :: "jsv \<Rightarrow> jsv \<Rightarrow> jsv \<Rightarrow> jsv \<Rightarrow> jsv \<Rightarrow> unit io" where
  "logExecutionComplete supabaseUrl supabaseKey executionId outp durationMs =
     (if \<not> truthy executionId then ret ()
      else try_catch
             (andThen (lift (to_text supabaseUrl)) (\<lambda>url.
              andThen (lift (to_text executionId)) (\<lambda>xid.
              andThen (lift (to_text supabaseKey)) (\<lambda>key.
              andThen (fetch (StorePatch (url @ ''/rest/v1/agent_executions?id=eq.'' @ xid) key
                                (Obj [(''output'', outp), (''status'', Str ''success''),
                                      (''duration_ms'', durationMs)]))) (\<lambda>response.
              if \<not> ok response
              then andThen (read_text response) (\<lambda>t. ret ())
              else ret ())))))
             (\<lambda>error. ret ()))"

definition logExecutionError :: "jsv \<Rightarrow> jsv \<Rightarrow> jsv \<Rightarrow> jsv \<Rightarrow> jsv \<Rightarrow> unit io" where
  "logExecutionError supabaseUrl supabaseKey executionId errorMessage durationMs =
     (if \<not> truthy executionId then ret ()
      else try_catch
             (andThen (lift (to_text supabaseUrl)) (\<lambda>url.
              andThen (lift (to_text executionId)) (\<lambda>xid.
              andThen (lift (to_text supabaseKey)) (\<lambda>key.
              andThen (fetch (StorePatch (url @ ''/rest/v1/agent_executions?id=eq.'' @ xid) key
                                (Obj [(''status'', Str ''error''), (''error_message'', errorMessage),
                                      (''duration_ms'', durationMs)]))) (\<lambda>response.
              if \<not> ok response
              then andThen (read_text response) (\<lambda>t. ret ())
              else ret ())))))
             (\<lambda>error. ret ()))"

section \<open>Conversation accessor (src/lib/supabase.js)\<close>

text \<open>
  \<open>existing && existing.length > 0\<close>: the store answers an array or, on an error, an
  object without a \<open>length\<close>; a \<open>length\<close> that is not a number counts as not
  greater than zero here.
\<close>

definition non_empty :: "jsv \<Rightarrow> bool" where
  "non_empty v =
     (truthy v \<and> (case get v ''length'' of Inr (Num n) \<Rightarrow> 0 < n | _ \<Rightarrow> False))"

definition getOrCreateConversation :: "jsv \<Rightarrow> jsv \<Rightarrow> jsv \<Rightarrow> jsv io" where
  "getOrCreateConversation supabaseUrl supabaseKey userId =
     try_catch
       (andThen (lift (to_text supabaseUrl)) (\<lambda>url.
        andThen (lift (to_text userId)) (\<lambda>user.
        andThen (lift (to_text supabaseKey)) (\<lambda>key.
        andThen (fetch (StoreGet (url @ ''/rest/v1/conversations?user_id=eq.'' @ user
                                    @ ''&status=eq.active&order=created_at.desc&limit=1'')
                          key)) (\<lambda>checkResponse.
        andThen (read_json checkResponse) (\<lambda>existing.
        if non_empty existing then lift (get existing ''0'')
        else andThen new_date_iso (\<lambda>createdAt.
             andThen (fetch (StorePost (url @ ''/rest/v1/conversations'') key
                               (Obj [(''user_id'', userId), (''status'', Str ''active''),
                                     (''created_at'', createdAt)]))) (\<lambda>createResponse.
             andThen (read_json createResponse) (\<lambda>result.
             lift (get result ''0''))))))))))
       (\<lambda>error. ret Null)"

section \<open>Requests, responses and configuration of a worker\<close>

text \<open>The variables a worker reads from \<open>env\<close>: text, or unset.\<close>

record env =
  ANTHROPIC_API_KEY :: "string option"
  NOTION_TOKEN :: "string option"
  NOTION_DATABASE_ID :: "string option"
  SUPABASE_URL :: "string option"
  SUPABASE_KEY :: "string option"
  RESEND_API_KEY :: "string option"

definition var :: "string option \<Rightarrow> jsv" where
  "var x = (case x of None \<Rightarrow> Undefined | Some s \<Rightarrow> Str s)"

text \<open>\<open>!!x\<close>\<close>

definition present :: "string option \<Rightarrow> jsv" where
  "present x = Bool (truthy (var x))"

text \<open>\<open>x?.substring(0, 10)\<close>\<close>

definition prefix10 :: "string option \<Rightarrow> jsv" where
  "prefix10 x = (case x of None \<Rightarrow> Undefined | Some s \<Rightarrow> Str (take 10 s))"

text \<open>
  The incoming request: its method, and what \<open>await request.json()\<close> gives, a parsed
  document or the error it rejects with.
\<close>

record http_request =
  req_method :: string
  json_body :: "js_error + jsv"

text \<open>
  The response: \<open>Json v\<close> is the body \<open>JSON.stringify(v)\<close>, \<open>Text t\<close> the body
  \<open>t\<close> as it stands, \<open>NoBody\<close> the null body.
\<close>

datatype payload = NoBody | Text string | Json jsv

record response =
  http_status :: nat
  headers :: "(string \<times> string) list"
  payload :: payload

definition json_header :: "(string \<times> string) list" where
  "json_header = [(''Content-Type'', ''application/json'')]"

section \<open>Nova, the marketing writer (src/unnamed/part_001)\<close>

definition corsHeaders :: "(string \<times> string) list" where
  "corsHeaders =
     [(''Access-Control-Allow-Origin'', ''*''),
      (''Access-Control-Allow-Methods'', ''GET, POST, OPTIONS''),
      (''Access-Control-Allow-Headers'', ''Content-Type'')]"

subsection \<open>getVoiceExamples\<close>

text \<open>
  The address and the \<open>Authorization\<close> header of a call to Notion are texts made of
  the arguments (\<open>`.../databases/${databaseId}/query`\<close>, \<open>`Bearer ${notionToken}`\<close>,
  \<open>`.../blocks/${page.id}/children`\<close>), inside the try block of each function.
\<close>

text \<open>The callback of \<open>data.results.map\<close>.\<close>

definition voice_example :: "jsv \<Rightarrow> js_error + jsv" where
  "voice_example page =
     thenE (get page ''properties'') (\<lambda>properties.
     thenE (get properties ''Content'') (\<lambda>contentProp.
     thenE (get properties ''Tag'') (\<lambda>tagProp.
     thenE (if nullish (opt_prop tagProp ''multi_select'') then Inr Undefined
            else thenE (array_map (opt_prop tagProp ''multi_select'')
                          ''page.properties.Tag?.multi_select?.map'' (\<lambda>t. get t ''name''))
                   (\<lambda>names. Inr (Arr names))) (\<lambda>tagNames.
     thenE (get properties ''Platform'') (\<lambda>platformProp.
     Inr (Obj [(''content'',
                js_or (opt_prop (opt_prop (opt_prop contentProp ''rich_text'') ''0'') ''plain_text'')
                  (Str [])),
               (''tags'', js_or tagNames (Arr [])),
               (''platform'', js_or (opt_prop (opt_prop platformProp ''select'') ''name'') (Str []))]))))))"

definition getVoiceExamples :: "jsv \<Rightarrow> jsv \<Rightarrow> jsv \<Rightarrow> jsv list io" where
  "getVoiceExamples notionToken databaseId platform =
     try_catch
       (andThen (lift (to_text databaseId)) (\<lambda>idText.
        andThen (lift (to_text notionToken)) (\<lambda>tokenText.
        andThen (fetch (NotionQuery notionToken databaseId platform)) (\<lambda>response.
        if \<not> ok response
        then andThen (read_text response) (\<lambda>error. ret [])
        else andThen (read_json response) (\<lambda>data.
             andThen (lift (get data ''results'')) (\<lambda>results.
             andThen (lift (array_map results ''data.results.map'' voice_example)) (\<lambda>examples.
             ret (filter (\<lambda>ex. truthy (opt_prop ex ''content'')) examples))))))))
       (\<lambda>error. ret [])"

subsection \<open>searchNotionWorkspace\<close>

definition extractBlockText :: "jsv \<Rightarrow> js_error + jsv" where
  "extractBlockText block =
     thenE (get block ''type'') (\<lambda>type.
     thenE (to_text type) (\<lambda>name.
     thenE (get block name) (\<lambda>inner.
     if \<not> truthy inner then Inr (Str [])
     else thenE (get inner ''rich_text'') (\<lambda>rich.
          thenE (array_map (js_or rich (Arr [])) ''richText.map'' (\<lambda>t. get t ''plain_text''))
            (\<lambda>parts. thenE (join_list [] parts) (\<lambda>text. Inr (Str text)))))))"

text \<open>
  The callback of \<open>data.results.slice(0, 3).map\<close>: it catches its own failures, so
  the promise it returns never rejects.
\<close>

definition fetch_page :: "jsv \<Rightarrow> jsv \<Rightarrow> jsv io" where
  "fetch_page notionToken page =
     try_catch
       (andThen (lift (get page ''id'')) (\<lambda>pageId.
        andThen (lift (to_text pageId)) (\<lambda>idText.
        andThen (lift (to_text notionToken)) (\<lambda>tokenText.
        andThen (fetch (NotionBlocks notionToken idText)) (\<lambda>pageContent.
        andThen (read_json pageContent) (\<lambda>blocks.
        andThen (lift (get blocks ''results'')) (\<lambda>results.
        andThen (lift (array_map results ''blocks.results.map'' extractBlockText)) (\<lambda>texts.
        andThen (lift (join_list [CHR 0x0A] (filter truthy texts))) (\<lambda>text.
        andThen (lift (get page ''properties'')) (\<lambda>properties.
        ret (Obj [(''title'',
                   js_or (opt_prop (opt_prop (opt_prop (opt_prop properties ''title'') ''title'') ''0'')
                            ''plain_text'')
                     (Str ''Untitled'')),
                  (''content'', Str text)])))))))))))
       (\<lambda>err. ret Null)"

text \<open>
  \<open>Promise.all(xs.map(f))\<close>: the calls start in the order of \<open>xs\<close> and the results
  keep that order; the calls are taken one after the other.
\<close>

fun each :: "('a \<Rightarrow> 'b io) \<Rightarrow> 'a list \<Rightarrow> 'b list io" where
  "each f [] = ret []"
| "each f (x # xs) = andThen (f x) (\<lambda>y. andThen (each f xs) (\<lambda>ys. ret (y # ys)))"

text \<open>\<open>v.slice(0, 3)\<close> followed by \<open>.map\<close>: a string has \<open>slice\<close> but no \<open>map\<close>.\<close>

definition slice3 :: "jsv \<Rightarrow> js_error + jsv list" where
  "slice3 v =
     (case v of
        Arr xs \<Rightarrow> Inr (take 3 xs)
      | Undefined \<Rightarrow> Inl (cannot_read v ''slice'')
      | Null \<Rightarrow> Inl (cannot_read v ''slice'')
      | Str s \<Rightarrow> Inl (not_a_function ''data.results.slice(...).map'')
      | _ \<Rightarrow> Inl (not_a_function ''data.results.slice''))"

definition searchQuery :: "jsv \<Rightarrow> jsv \<Rightarrow> jsv" where
  "searchQuery topic platform =
     (if platform = Str ''LinkedIn'' then Str ''LinkedIn Content Style Guide''
      else if platform = Str ''Substack'' then Str ''Substack Strategy''
      else topic)"

definition searchNotionWorkspace :: "jsv \<Rightarrow> jsv \<Rightarrow> jsv \<Rightarrow> jsv list io" where
  "searchNotionWorkspace notionToken topic platform =
     try_catch
       (andThen (lift (to_text notionToken)) (\<lambda>tokenText.
        andThen (fetch (NotionSearch notionToken (searchQuery topic platform))) (\<lambda>response.
        if \<not> ok response
        then andThen (read_text response) (\<lambda>t. ret [])
        else andThen (read_json response) (\<lambda>data.
             andThen (lift (get data ''results'')) (\<lambda>results.
             andThen (lift (slice3 results)) (\<lambda>first.
             andThen (each (fetch_page notionToken) first) (\<lambda>pages.
             ret (filter truthy pages))))))))
       (\<lambda>error. ret [])"

subsection \<open>The prompts\<close>

text \<open>
  The fixed passages of the two prompts, as the template literals of the source have
  them (line breaks and indentation included; a character outside ASCII is written as its
  UTF-8 bytes).
\<close>

definition intro_head :: string where
  "intro_head =
     ''You are Nova, Jacob Brain'' @ [CHR 0x27]
     @ ''s marketing writing assistant. Your job is to write ''"

definition intro_tail :: string where
  "intro_tail =
     '' content that sounds exactly like Jacob.''"

definition voice_and_style :: string where
  "voice_and_style =
     [CHR 0x0A] @ ''  '' @ [CHR 0x0A] @ ''  # Jacob'' @ [CHR 0x27] @ ''s Voice & Style''
     @ [CHR 0x0A] @ ''  '' @ [CHR 0x0A]
     @ ''  Jacob writes with a direct, practical, anti-fluff style. Key characteristics:''
     @ [CHR 0x0A] @ ''  '' @ [CHR 0x0A]
     @ ''  - **Direct and concise**: Gets to the point quickly, no unnecessary words'' @ [CHR 0x0A]
     @ ''  - **Practical over theoretical**: Emphasizes actionable advice and real-world application  ''
     @ [CHR 0x0A]
     @ ''  - **Conversational but professional**: Approachable tone while maintaining credibility''
     @ [CHR 0x0A]
     @ ''  - **Contrarian when warranted**: Challenges conventional wisdom with nuanced takes''
     @ [CHR 0x0A] @ ''  - **Structured thinking**: Often uses bullets, numbers, or clear sections''
     @ [CHR 0x0A] @ ''  - **No hype or buzzwords**: Avoids marketing speak and empty phrases''
     @ [CHR 0x0A]
     @ ''  - **Personal experience**: Draws from building agencies and working with professional services firms''
     @ [CHR 0x0A] @ ''  '' @ [CHR 0x0A] @ ''  ''"

definition voice_examples_heading :: string where
  "voice_examples_heading =
     [CHR 0x0A] @ ''# Voice Examples'' @ [CHR 0x0A, CHR 0x0A] @ ''Here are examples of Jacob''
     @ [CHR 0x27] @ ''s actual posts:'' @ [CHR 0x0A, CHR 0x0A]"

definition guidelines_heading :: string where
  "guidelines_heading =
     [CHR 0x0A] @ ''# Style Guidelines from Notion'' @ [CHR 0x0A, CHR 0x0A]"

definition closing_instruction :: string where
  "closing_instruction =
     [CHR 0x0A] @ ''Write in Jacob'' @ [CHR 0x27]
     @ ''s voice. Match his style, tone, and approach. Be direct, practical, and valuable.''"

definition linkedin_formatting :: string where
  "linkedin_formatting =
     ''LinkedIn formatting:'' @ [CHR 0x0A]
     @ ''  - Start with a strong hook (first 1-2 sentences)'' @ [CHR 0x0A]
     @ ''  - Keep paragraphs short (1-3 sentences)'' @ [CHR 0x0A]
     @ ''  - Use line breaks for readability'' @ [CHR 0x0A] @ ''  - Can use bullets (''
     @ [CHR 0xF0, CHR 0x9F, CHR 0x9A, CHR 0xAB] @ '', ''
     @ [CHR 0xE2, CHR 0x9C, CHR 0x8F, CHR 0xEF, CHR 0xB8, CHR 0x8F]
     @ '', etc.) or emojis sparingly'' @ [CHR 0x0A] @ ''  - 150-300 words typically'' @ [CHR 0x0A]
     @ ''  - End with insight or call to action''"

definition substack_formatting :: string where
  "substack_formatting =
     ''Substack Note formatting:'' @ [CHR 0x0A]
     @ ''  - Can be shorter and punchier than LinkedIn'' @ [CHR 0x0A]
     @ ''  - More casual, conversational'' @ [CHR 0x0A]
     @ ''  - Quick takes, observations, or insights'' @ [CHR 0x0A] @ ''  - 50-150 words''"

text \<open>
  \<open>buildSystemPrompt\<close>. Every \<open>${...}\<close> converts a value to text, which throws on
  a value that has no text. \<open>example_text\<close> and \<open>doc_text\<close> are the callbacks
  of the two \<open>forEach\<close>: the line of an example, with its number, its tags and its
  content, and the heading and content of a document.
\<close>

definition example_text :: "nat \<Rightarrow> jsv \<Rightarrow> js_error + string" where
  "example_text i ex =
     thenE (get ex ''tags'') (\<lambda>tags.
     thenE (js_join tags ''ex.tags.join'' '', '') (\<lambda>tagText.
     thenE (get ex ''content'') (\<lambda>content.
     thenE (to_text content) (\<lambda>contentText.
     Inr (''Example '' @ decimal (i + 1) @ '' ('' @ tagText @ ''):'' @ [CHR 0x0A]
          @ contentText @ [CHR 0x0A, CHR 0x0A])))))"

definition doc_text :: "jsv \<Rightarrow> js_error + string" where
  "doc_text doc =
     thenE (get doc ''title'') (\<lambda>title.
     thenE (to_text title) (\<lambda>titleText.
     thenE (get doc ''content'') (\<lambda>content.
     thenE (to_text content) (\<lambda>contentText.
     Inr (''## '' @ titleText @ [CHR 0x0A] @ contentText @ [CHR 0x0A, CHR 0x0A])))))"

definition buildSystemPrompt :: "jsv \<Rightarrow> jsv list \<Rightarrow> jsv list \<Rightarrow> js_error + string" where
  "buildSystemPrompt platform voiceExamples contextDocs =
     thenE (to_text (js_or platform (Str ''social media''))) (\<lambda>platformText.
     thenE (if voiceExamples = [] then Inr []
            else thenE (mapE (\<lambda>p. example_text (fst p) (snd p))
                          (enumerate 0 (take 5 voiceExamples)))
                   (\<lambda>texts. Inr (voice_examples_heading @ concat texts))) (\<lambda>examples.
     thenE (if contextDocs = [] then Inr []
            else thenE (mapE doc_text contextDocs)
                   (\<lambda>texts. Inr (guidelines_heading @ concat texts))) (\<lambda>guidelines.
     Inr (intro_head @ platformText @ intro_tail @ voice_and_style @ examples @ guidelines
          @ closing_instruction))))"

definition buildUserPrompt :: "jsv \<Rightarrow> jsv \<Rightarrow> jsv \<Rightarrow> js_error + string" where
  "buildUserPrompt topic platform style =
     thenE (to_text (js_or platform (Str ''social media''))) (\<lambda>platformText.
     thenE (to_text topic) (\<lambda>topicText.
     thenE (if truthy style
            then thenE (to_text style)
                   (\<lambda>styleText. Inr (''Style notes: '' @ styleText @ [CHR 0x0A, CHR 0x0A]))
            else Inr []) (\<lambda>notes.
     Inr (''Write a '' @ platformText @ '' post about: '' @ topicText @ [CHR 0x0A, CHR 0x0A]
          @ notes
          @ (if platform = Str ''LinkedIn'' then linkedin_formatting
             else if platform = Str ''Substack'' then substack_formatting
             else [])))))"

subsection \<open>generateContent\<close>

text \<open>
  The two prompts are built first; then the API key is logged
  (\<open>apiKey?.substring(0, 20)\<close>) and the call is made.
\<close>

definition generateContent :: "jsv \<Rightarrow> jsv \<Rightarrow> jsv \<Rightarrow> jsv list \<Rightarrow> jsv list \<Rightarrow> jsv \<Rightarrow> jsv io" where
  "generateContent topic platform style voiceExamples contextDocs apiKey =
     andThen (lift (buildSystemPrompt platform voiceExamples contextDocs)) (\<lambda>systemPrompt.
     andThen (lift (buildUserPrompt topic platform style)) (\<lambda>userPrompt.
     andThen (lift (opt_substring apiKey ''apiKey?.substring'' 20)) (\<lambda>keyPrefix.
     andThen (fetch (AnthropicMessages apiKey userPrompt systemPrompt)) (\<lambda>response.
     andThen (read_text response) (\<lambda>responseText.
     andThen (try_catch (lift (parsed response))
                (\<lambda>e. throw (JsError ''Error''
                               (''Failed to parse Anthropic response: '' @ responseText)))) (\<lambda>data.
     if \<not> ok response
     then throw (JsError ''Error''
                   (''Claude API error ('' @ show_int (int (code response)) @ ''): ''
                    @ stringify data))
     else andThen (lift (get data ''content'')) (\<lambda>content.
          andThen (lift (get content ''0'')) (\<lambda>first.
          lift (get first ''text'')))))))))"

subsection \<open>The handler\<close>

definition nova_probe :: "env \<Rightarrow> jsv" where
  "nova_probe env =
     Obj [(''message'', Str ''Nova is running''),
          (''hasAnthropicKey'', present (ANTHROPIC_API_KEY env)),
          (''hasNotionToken'', present (NOTION_TOKEN env)),
          (''hasNotionDatabase'', present (NOTION_DATABASE_ID env)),
          (''hasSupabaseUrl'', present (SUPABASE_URL env)),
          (''hasSupabaseKey'', present (SUPABASE_KEY env))]"

text \<open>
  \<open>const { topic, platform, style } = await request.json()\<close>: destructuring null
  throws (V8's wording of the message).
\<close>

definition cannot_destructure :: "jsv \<Rightarrow> string \<Rightarrow> js_error" where
  "cannot_destructure v k = JsError ''TypeError''
     (''Cannot destructure property '' @ [CHR 0x27] @ k @ [CHR 0x27] @ '' of ''
      @ [CHR 0x27] @ ''(intermediate value)'' @ [CHR 0x27] @ '' as it is ''
      @ nullish_name v @ ''.'')"

definition parse_input :: "http_request \<Rightarrow> (jsv \<times> jsv \<times> jsv) io" where
  "parse_input request =
     andThen (lift (json_body request)) (\<lambda>body.
     if nullish body then throw (cannot_destructure body ''topic'')
     else andThen (lift (get body ''topic'')) (\<lambda>topic.
          andThen (lift (get body ''platform'')) (\<lambda>platform.
          andThen (lift (get body ''style'')) (\<lambda>style.
          ret (topic, platform, style)))))"

text \<open>Lines 61 to 86: the work between the start of logging and its completion.\<close>

definition domain_logic :: "env \<Rightarrow> jsv \<Rightarrow> jsv \<Rightarrow> jsv \<Rightarrow> jsv io" where
  "domain_logic env topic platform style =
     andThen (getVoiceExamples (var (NOTION_TOKEN env)) (var (NOTION_DATABASE_ID env)) platform)
       (\<lambda>voiceExamples.
     andThen (searchNotionWorkspace (var (NOTION_TOKEN env)) topic platform) (\<lambda>contextDocs.
     andThen (generateContent topic platform style voiceExamples contextDocs
                (var (ANTHROPIC_API_KEY env))) (\<lambda>draft.
     ret (Obj [(''draft'', draft),
               (''voiceExamplesUsed'', Num (int (length voiceExamples))),
               (''contextDocsUsed'', Num (int (length contextDocs)))]))))"

definition envelope :: "bool \<Rightarrow> jsv \<Rightarrow> jsv \<Rightarrow> jsv \<Rightarrow> jsv \<Rightarrow> jsv" where
  "envelope success outp err executionId timestamp =
     Obj [(''success'', Bool success), (''output'', outp), (''error'', err),
          (''metadata'', Obj [(''agentId'', Str ''nova''), (''executionId'', executionId),
                              (''timestamp'', timestamp)])]"

text \<open>Lines 88 to 109: the end of the try block.\<close>

definition nova_complete :: "env \<Rightarrow> jsv \<Rightarrow> int \<Rightarrow> jsv \<Rightarrow> response io" where
  "nova_complete env executionId startTime outp =
     andThen date_now (\<lambda>now.
     andThen (logExecutionComplete (var (SUPABASE_URL env)) (var (SUPABASE_KEY env)) executionId
                outp (Num (now - startTime))) (\<lambda>u.
     andThen new_date_iso (\<lambda>timestamp.
     ret \<lparr>http_status = 200, headers = corsHeaders @ json_header,
          payload = Json (envelope True outp Null executionId timestamp)\<rparr>)))"

text \<open>Lines 111 to 137: the catch block.\<close>

definition nova_catch :: "env \<Rightarrow> jsv \<Rightarrow> int \<Rightarrow> js_error \<Rightarrow> response io" where
  "nova_catch env executionId startTime error =
     andThen date_now (\<lambda>now.
     andThen (logExecutionError (var (SUPABASE_URL env)) (var (SUPABASE_KEY env)) executionId
                (Str (message error)) (Num (now - startTime))) (\<lambda>u.
     andThen new_date_iso (\<lambda>timestamp.
     ret \<lparr>http_status = 500, headers = corsHeaders @ json_header,
          payload = Json (envelope False Null (Str (message error)) executionId timestamp)\<rparr>)))"

definition nova_start :: "env \<Rightarrow> jsv \<Rightarrow> jsv \<Rightarrow> jsv \<Rightarrow> jsv io" where
  "nova_start env topic platform style =
     logExecutionStart_with [(''form_type'', Null)]
       (var (SUPABASE_URL env)) (var (SUPABASE_KEY env)) Null (Str ''nova'')
       (Obj [(''topic'', topic), (''platform'', platform), (''style'', js_or style Null)])"

text \<open>
  The try block. \<open>executionId\<close> is a variable of the handler, null until
  \<open>logExecutionStart\<close> has returned; the block gives back its value together with
  the response or the failure, since the catch block reads it.
\<close>

definition nova_try ::
  "env \<Rightarrow> http_request \<Rightarrow> int \<Rightarrow> world \<Rightarrow> (jsv \<times> (js_error + response)) \<times> world" where
  "nova_try env request startTime w =
     (case parse_input request w of
        (Inl e, w1) \<Rightarrow> ((Null, Inl e), w1)
      | (Inr (topic, platform, style), w1) \<Rightarrow>
          (case nova_start env topic platform style w1 of
             (Inl e, w2) \<Rightarrow> ((Null, Inl e), w2)
           | (Inr executionId, w2) \<Rightarrow>
               (case andThen (domain_logic env topic platform style)
                       (nova_complete env executionId startTime) w2 of
                  (r, w3) \<Rightarrow> ((executionId, r), w3))))"

definition nova_post :: "env \<Rightarrow> http_request \<Rightarrow> response io" where
  "nova_post env request w =
     (case date_now w of
        (Inl e, w0) \<Rightarrow> (Inl e, w0)
      | (Inr startTime, w0) \<Rightarrow>
          (case nova_try env request startTime w0 of
             ((executionId, Inr r), w1) \<Rightarrow> (Inr r, w1)
           | ((executionId, Inl error), w1) \<Rightarrow> nova_catch env executionId startTime error w1))"

definition nova_fetch :: "env \<Rightarrow> http_request \<Rightarrow> response io" where
  "nova_fetch env request =
     (if req_method request = ''OPTIONS''
      then ret \<lparr>http_status = 200, headers = corsHeaders, payload = NoBody\<rparr>
      else if req_method request = ''GET''
      then ret \<lparr>http_status = 200, headers = corsHeaders @ json_header,
                payload = Json (nova_probe env)\<rparr>
      else if req_method request \<noteq> ''POST''
      then ret \<lparr>http_status = 405, headers = corsHeaders, payload = Text ''Method not allowed''\<rparr>
      else nova_post env request)"

section \<open>Ada, the form analyzer (src/workers/ada-form-analyzer/worker.js)\<close>

definition to_lower :: "char \<Rightarrow> char" where
  "to_lower c =
     (if (65 :: nat) \<le> of_char c \<and> of_char c \<le> (90 :: nat) then char_of (of_char c + (32 :: nat))
      else c)"

text \<open>\<open>v?.toLowerCase() || ''\<close>, \<open>name\<close> being the source text of the method read.\<close>

definition lower_or_empty :: "jsv \<Rightarrow> string \<Rightarrow> js_error + string" where
  "lower_or_empty v name =
     (case v of
        Undefined \<Rightarrow> Inr []
      | Null \<Rightarrow> Inr []
      | Str s \<Rightarrow> Inr (map to_lower s)
      | _ \<Rightarrow> Inl (not_a_function name))"

fun starts_with :: "string \<Rightarrow> string \<Rightarrow> bool" where
  "starts_with s [] = True"
| "starts_with [] (c # cs) = False"
| "starts_with (d # ds) (c # cs) = (d = c \<and> starts_with ds cs)"

text \<open>\<open>s.includes(t)\<close>\<close>

fun js_includes :: "string \<Rightarrow> string \<Rightarrow> bool" where
  "js_includes [] t = (t = [])"
| "js_includes (c # cs) t = (starts_with (c # cs) t \<or> js_includes cs t)"

definition determineFormType :: "jsv \<Rightarrow> js_error + string" where
  "determineFormType formData =
     thenE (get formData ''formName'') (\<lambda>rawName.
     thenE (lower_or_empty rawName ''formData.formName?.toLowerCase'') (\<lambda>formName.
     if js_includes formName ''helper'' then Inr ''helper''
     else if js_includes formName ''request'' then Inr ''request''
     else thenE (get formData ''fields'') (\<lambda>fields.
          thenE (array_map fields ''formData.fields.map''
                   (\<lambda>f. thenE (get f ''label'') (\<lambda>label.
                        thenE (lower_or_empty label ''f.label?.toLowerCase'') (\<lambda>l. Inr (Str l)))))
            (\<lambda>fieldLabels.
          if list_ex (\<lambda>label. js_includes (to_str label) ''skills offered'') fieldLabels
          then Inr ''helper''
          else Inr ''request''))))"

text \<open>
  The e-mail templates (\<open>buildRequestEmail\<close>, \<open>buildHelperEmail\<close>) are the
  parameter \<open>templates\<close> of the functions below, in two steps, as both functions are
  written. First the field lookups, from the form type, the form data and the analysis:
  they throw, or they give what fills the texts. Then
  \<open>submissionDate = formData.createdAt || new Date().toISOString()\<close>, which reads the
  clock when the form has no date of its own. Then the subject and the body, from the
  lookups and the submission date (with the date formatting), or a throw.
\<close>

type_synonym templates =
  "string \<Rightarrow> jsv \<Rightarrow> jsv \<Rightarrow> js_error + (jsv \<Rightarrow> js_error + (string \<times> string))"

definition emailPayload :: "string \<times> string \<Rightarrow> jsv" where
  "emailPayload emailConfig =
     Obj [(''from'', Str (''Ada (Jacob'' @ [CHR 0x27] @ ''s AI Assistant) <noreply@agent.jacobbrain.com>'')),
          (''to'', Str ''joel0954@comcast.net''),
          (''cc'', Arr [Str ''jbrainiv@gmail.com'', Str ''jacob.brain@mvccfrederick.com'']),
          (''subject'', Str (fst emailConfig)),
          (''html'', Str (snd emailConfig))]"

definition sendEmail :: "templates \<Rightarrow> jsv \<Rightarrow> jsv \<Rightarrow> string \<Rightarrow> jsv \<Rightarrow> jsv io" where
  "sendEmail templates formData analysis formType apiKey =
     try_catch
       (andThen (lift (templates formType formData analysis)) (\<lambda>fill.
        andThen (lift (get formData ''createdAt'')) (\<lambda>createdAt.
        andThen (if truthy createdAt then ret createdAt else new_date_iso) (\<lambda>submissionDate.
        andThen (lift (fill submissionDate)) (\<lambda>emailConfig.
        andThen (lift (opt_substring apiKey ''apiKey?.substring'' 10)) (\<lambda>keyPrefix.
        andThen (fetch (ResendEmail apiKey (emailPayload emailConfig))) (\<lambda>response.
        andThen (read_json response) (\<lambda>result.
        if \<not> ok response
        then ret (Obj [(''success'', Bool False), (''data'', result),
                       (''error'', Str (''Resend API returned '' @ show_int (int (code response)))),
                       (''responseText'', Str (stringify result))])
        else ret (Obj [(''success'', Bool True), (''data'', result)])))))))))
       (\<lambda>error w. ret (Obj [(''success'', Bool False), (''error'', Str (message error)),
                             (''stack'', Str (stack (trace w) error))]) w)"

definition ada_probe :: "env \<Rightarrow> jsv" where
  "ada_probe env =
     Obj [(''message'', Str ''Worker is running''),
          (''hasResendKey'', present (RESEND_API_KEY env)),
          (''resendKeyPrefix'', js_or (prefix10 (RESEND_API_KEY env)) (Str ''NO KEY'')),
          (''hasAnthropicKey'', present (ANTHROPIC_API_KEY env)),
          (''anthropicKeyPrefix'', js_or (prefix10 (ANTHROPIC_API_KEY env)) (Str ''NO KEY''))]"

definition ada_success :: "env \<Rightarrow> string \<Rightarrow> jsv \<Rightarrow> jsv" where
  "ada_success env formType emailResult =
     Obj [(''success'', Bool True),
          (''formType'', Str formType),
          (''emailSent'', opt_prop emailResult ''success''),
          (''emailError'', js_or (opt_prop emailResult ''error'') Null),
          (''emailResponseText'', js_or (opt_prop emailResult ''responseText'') Null),
          (''emailData'', opt_prop emailResult ''data''),
          (''debugInfo'',
           Obj [(''hasResendKey'', present (RESEND_API_KEY env)),
                (''resendKeyPrefix'', prefix10 (RESEND_API_KEY env)),
                (''hasAnthropicKey'', present (ANTHROPIC_API_KEY env))])]"

definition ada_failure :: "(js_error \<Rightarrow> string) \<Rightarrow> js_error \<Rightarrow> jsv" where
  "ada_failure frames error =
     Obj [(''success'', Bool False), (''error'', Str (message error)),
          (''stack'', Str (stack frames error))]"

definition ada_post :: "templates \<Rightarrow> env \<Rightarrow> http_request \<Rightarrow> response io" where
  "ada_post templates env request =
     try_catch
       (andThen (lift (json_body request)) (\<lambda>webhookData.
        andThen (lift (get webhookData ''data'')) (\<lambda>formData.
        andThen (lift (determineFormType formData)) (\<lambda>formType.
        andThen (sendEmail templates formData
                   (Str ''Test analysis - Claude API skipped for debugging'') formType
                   (var (RESEND_API_KEY env))) (\<lambda>emailResult.
        ret \<lparr>http_status = 200, headers = json_header,
             payload = Json (ada_success env formType emailResult)\<rparr>)))))
       (\<lambda>error w. ret \<lparr>http_status = 500, headers = json_header,
                        payload = Json (ada_failure (trace w) error)\<rparr> w)"

definition ada_fetch :: "templates \<Rightarrow> env \<Rightarrow> http_request \<Rightarrow> response io" where
  "ada_fetch templates env request =
     (if req_method request = ''GET''
      then ret \<lparr>http_status = 200, headers = json_header, payload = Json (ada_probe env)\<rparr>
      else if req_method request \<noteq> ''POST''
      then ret \<lparr>http_status = 405, headers = [], payload = Text ''Method not allowed''\<rparr>
      else ada_post templates env request)"

section \<open>Notions used in the statements\<close>

subsection \<open>The response contract (spec, section 3)\<close>

text \<open>
  The document a caller reads from the body. A body given as text is sent as it stands,
  not through \<open>JSON.stringify\<close>; the one text body of the sources,
  \<open>Method not allowed\<close>, is not a JSON document.
\<close>

fun json_document :: "payload \<Rightarrow> jsv option" where
  "json_document (Json v) = Some (wire v)"
| "json_document (Text t) = None"
| "json_document NoBody = None"

definition received :: "response \<Rightarrow> jsv" where
  "received r = (case json_document (payload r) of Some v \<Rightarrow> v | None \<Rightarrow> Undefined)"

fun is_string :: "jsv \<Rightarrow> bool" where
  "is_string (Str s) = True"
| "is_string v = False"

text \<open>
  AgentResponse: \<open>success\<close> is a boolean; \<open>output\<close> is present iff \<open>success\<close>;
  \<open>error\<close> is a text, present iff not \<open>success\<close>, otherwise null; \<open>metadata\<close>
  holds at least \<open>agentId\<close> and a completion timestamp (and the execution id when
  logging succeeded). Present means neither missing nor null.
\<close>

definition agent_response :: "jsv \<Rightarrow> bool" where
  "agent_response v =
     (case opt_prop v ''success'' of
        Bool b \<Rightarrow>
          (b = (\<not> nullish (opt_prop v ''output'')))
          \<and> ((\<not> nullish (opt_prop v ''output'')) = nullish (opt_prop v ''error''))
          \<and> (nullish (opt_prop v ''error'') \<or> is_string (opt_prop v ''error''))
          \<and> is_string (opt_prop (opt_prop v ''metadata'') ''agentId'')
          \<and> is_string (opt_prop (opt_prop v ''metadata'') ''timestamp'')
      | _ \<Rightarrow> False)"

definition exposes_stack :: "jsv \<Rightarrow> bool" where
  "exposes_stack v = (\<not> nullish (opt_prop v ''stack''))"


subsection \<open>The store at work\<close>

text \<open>The store serves the next \<open>n\<close> calls.\<close>

fun serving :: "nat \<Rightarrow> outcome option list \<Rightarrow> bool" where
  "serving 0 plan = True"
| "serving (Suc n) [] = True"
| "serving (Suc n) (None # plan) = serving n plan"
| "serving (Suc n) (Some out # plan) = False"

text \<open>
  A call the store does not serve fails: the connection is rejected or the status is
  not 2xx.
\<close>

fun failure :: "outcome \<Rightarrow> bool" where
  "failure (Rejected e) = True"
| "failure (Responded r) = (\<not> ok r)"

fun honest :: "outcome option list \<Rightarrow> bool" where
  "honest [] = True"
| "honest (None # plan) = honest plan"
| "honest (Some out # plan) = (failure out \<and> honest plan)"

definition next_id :: "store \<Rightarrow> string" where
  "next_id s = mint s (length (executions s))"

text \<open>The identifier of the next execution record is not that of an existing one.\<close>

definition next_id_fresh :: "store \<Rightarrow> bool" where
  "next_id_fresh s = (next_id s \<notin> set (map exec_id (executions s)))"

text \<open>The worker is configured with the address and the key of the store.\<close>

definition configured :: "env \<Rightarrow> store \<Rightarrow> bool" where
  "configured env s =
     (SUPABASE_URL env = Some (base_url s) \<and> SUPABASE_KEY env = Some (api_key s))"

subsection \<open>The lifecycle of an execution record (spec, section 4.1)\<close>

definition terminal_patch :: "(string \<times> jsv) list \<Rightarrow> bool" where
  "terminal_patch ps =
     (map_of ps ''status'' = Some (Str ''success'') \<or> map_of ps ''status'' = Some (Str ''error''))"

text \<open>
  The writes of one invocation, \<open>old\<close> being the identifiers in the table before it:
  none; or one record created in state running under a new identifier; or that, followed
  by one update of this record to a terminal state.
\<close>

fun lifecycle :: "string list \<Rightarrow> store_event list \<Rightarrow> bool" where
  "lifecycle old [] = True"
| "lifecycle old [Created r] = (status r = Str ''running'' \<and> exec_id r \<notin> set old)"
| "lifecycle old [Created r, Updated i ps] =
     (status r = Str ''running'' \<and> exec_id r \<notin> set old \<and> i = exec_id r \<and> terminal_patch ps)"
| "lifecycle old evs = False"

subsection \<open>What an invocation of Nova works out\<close>

text \<open>
  The output of the domain logic or the failure raised, by the request body and the
  collaborators alone.
\<close>

definition nova_outcome :: "env \<Rightarrow> http_request \<Rightarrow> world \<Rightarrow> js_error + jsv" where
  "nova_outcome env request w =
     (case fst (parse_input request w) of
        Inl e \<Rightarrow> Inl e
      | Inr (topic, platform, style) \<Rightarrow> fst (domain_logic env topic platform style w))"

text \<open>The response of Nova's POST branch, from what the invocation worked out.\<close>

definition nova_reply :: "js_error + jsv \<Rightarrow> jsv \<Rightarrow> jsv \<Rightarrow> response" where
  "nova_reply r executionId timestamp =
     (case r of
        Inr outp \<Rightarrow>
          \<lparr>http_status = 200, headers = corsHeaders @ json_header,
           payload = Json (envelope True outp Null executionId timestamp)\<rparr>
      | Inl e \<Rightarrow>
          \<lparr>http_status = 500, headers = corsHeaders @ json_header,
           payload = Json (envelope False Null (Str (message e)) executionId timestamp)\<rparr>)"

text \<open>What the spec calls the primary response: status, success, output, error.\<close>

definition primary :: "response \<Rightarrow> nat \<times> jsv \<times> jsv \<times> jsv" where
  "primary r =
     (http_status r, opt_prop (received r) ''success'', opt_prop (received r) ''output'',
      opt_prop (received r) ''error'')"

text \<open>The completion timestamp of Nova's POST branch.\<close>

definition stamp :: "http_request \<Rightarrow> world \<Rightarrow> jsv" where
  "stamp request w =
     Str (iso w (wall w (tick w + (case fst (parse_input request w) of Inl e \<Rightarrow> 2 | Inr x \<Rightarrow> 3))))"

subsection \<open>Computations that leave the store and the clock alone\<close>

text \<open>
  \<open>apart m\<close>: the computation neither reads nor changes the store and the clock
  position. \<open>steady m\<close>: it leaves the clock, the date format and the collaborators
  as they are.
\<close>

definition apart :: "'a io \<Rightarrow> bool" where
  "apart m =
     (\<forall>w s t. m (w\<lparr>db := s, tick := t\<rparr>) = (fst (m w), (snd (m w))\<lparr>db := s, tick := t\<rparr>))"

definition steady :: "'a io \<Rightarrow> bool" where
  "steady m =
     (\<forall>w. iso (snd (m w)) = iso w \<and> wall (snd (m w)) = wall w \<and> collab (snd (m w)) = collab w)"

text \<open>\<open>aside m\<close>: the computation neither reads nor changes the store.\<close>

definition aside :: "'a io \<Rightarrow> bool" where
  "aside m = (\<forall>w s. m (w\<lparr>db := s\<rparr>) = (fst (m w), (snd (m w))\<lparr>db := s\<rparr>))"

subsection \<open>What the store reads\<close>

text \<open>The properties of an object as they arrive after \<open>JSON.stringify\<close>.\<close>

definition sent_props :: "(string \<times> jsv) list \<Rightarrow> (string \<times> jsv) list" where
  "sent_props ps = map (\<lambda>p. (fst p, wire_item (snd p))) (filter (\<lambda>p. snd p \<noteq> Undefined) ps)"

text \<open>The answer of the store to the lookup of the active conversation of a user.\<close>

definition actives :: "string \<Rightarrow> store \<Rightarrow> conversation list" where
  "actives u s =
     take 1 (newest_first (filter (\<lambda>c. user_id c = Str u \<and> conv_status c = Str ''active'')
                             (conversations s)))"

text \<open>The query of that lookup, as the store reads it when the identifier is URL-safe.\<close>

definition lookup_query :: "string \<Rightarrow> (string \<times> string) list" where
  "lookup_query u =
     [(''user_id'', ''eq.'' @ u), (''status'', ''eq.active''), (''order'', ''created_at.desc''),
      (''limit'', ''1'')]"

subsection \<open>The store, step by step\<close>

text \<open>What \<open>logExecutionStart\<close> returns for an answer of the store.\<close>

definition start_result :: "outcome \<Rightarrow> jsv" where
  "start_result out =
     (case out of
        Rejected e \<Rightarrow> Null
      | Responded r \<Rightarrow>
          if \<not> ok r then Null
          else (case body_text r of
                  Inl e \<Rightarrow> Null
                | Inr t \<Rightarrow>
                    (case parsed r of
                       Inl e \<Rightarrow> Null
                     | Inr result \<Rightarrow>
                         (case get result ''0'' of
                            Inl e \<Rightarrow> Null
                          | Inr row \<Rightarrow> js_or (opt_prop row ''id'') Null))))"


text \<open>What an update by id does to the table and the journal, and a call that writes nothing.\<close>

definition updated :: "string \<Rightarrow> (string \<times> jsv) list \<Rightarrow> store \<Rightarrow> store \<Rightarrow> bool" where
  "updated i ps s s' =
     (executions s' = map (\<lambda>r. if exec_id r = i then patched ps r else r) (executions s)
      \<and> journal s' = journal s @ map (\<lambda>r. Updated (exec_id r) ps)
                                      (filter (\<lambda>r. exec_id r = i) (executions s)))"


definition untouched :: "store \<Rightarrow> store \<Rightarrow> bool" where
  "untouched s s' = (executions s' = executions s \<and> journal s' = journal s)"


text \<open>The record an invocation leaves in the table, from the writes it made.\<close>

fun recorded :: "store_event list \<Rightarrow> execution list" where
  "recorded [Created r] = [r]"
| "recorded [Created r, Updated i ps] = [patched ps r]"
| "recorded evs = []"


text \<open>The end of an invocation: the rest of the try block or the catch block.\<close>

definition nova_end :: "env \<Rightarrow> jsv \<Rightarrow> int \<Rightarrow> js_error + jsv \<Rightarrow> response io" where
  "nova_end env v t0 r =
     (case r of Inl e \<Rightarrow> nova_catch env v t0 e | Inr outp \<Rightarrow> nova_complete env v t0 outp)"


text \<open>The conversation a first access opens for user \<open>u\<close> with the time stamp \<open>t\<close>.\<close>

definition opened :: "store \<Rightarrow> string \<Rightarrow> jsv \<Rightarrow> conversation" where
  "opened s u t =
     \<lparr>conv_id = mint s (length (conversations s)), user_id = Str u,
      conv_status = Str ''active'', conv_created_at = t\<rparr>"


subsection \<open>Collaborators that fail\<close>

fun is_knowledge :: "request \<Rightarrow> bool" where
  "is_knowledge (NotionQuery t d p) = True"
| "is_knowledge (NotionSearch t q) = True"
| "is_knowledge (NotionBlocks t i) = True"
| "is_knowledge r = False"










text \<open>
  What the knowledge store gives to an invocation (the two functions that read it return
  a list whatever happens), and the prompts made of it: the user prompt and the system
  prompt, or the failure of the conversion to text.
\<close>

definition gathered :: "env \<Rightarrow> jsv \<Rightarrow> jsv \<Rightarrow> world \<Rightarrow> jsv list \<times> jsv list" where
  "gathered env topic platform w =
     (case getVoiceExamples (var (NOTION_TOKEN env)) (var (NOTION_DATABASE_ID env)) platform w of
        (r1, w1) \<Rightarrow>
          (case searchNotionWorkspace (var (NOTION_TOKEN env)) topic platform w1 of
             (r2, w2) \<Rightarrow>
               (case r1 of Inr voiceExamples \<Rightarrow> voiceExamples | Inl e \<Rightarrow> [],
                case r2 of Inr contextDocs \<Rightarrow> contextDocs | Inl e \<Rightarrow> [])))"

definition prompts :: "env \<Rightarrow> jsv \<Rightarrow> jsv \<Rightarrow> jsv \<Rightarrow> world \<Rightarrow> js_error + (string \<times> string)" where
  "prompts env topic platform style w =
     thenE (buildSystemPrompt platform (fst (gathered env topic platform w))
              (snd (gathered env topic platform w))) (\<lambda>systemPrompt.
     thenE (buildUserPrompt topic platform style) (\<lambda>userPrompt.
     Inr (userPrompt, systemPrompt)))"

text \<open>
  A user identifier that arrives at the store as it was written into the URL: it has none
  of the characters that end the query (\<open>#\<close>), separate its parameters (\<open>&\<close>) or
  are escapes (\<open>%\<close>, \<open>+\<close>), and no control character.
\<close>

definition url_safe :: "string \<Rightarrow> bool" where
  "url_safe u =
     list_all (\<lambda>c. c \<noteq> CHR ''#'' \<and> c \<noteq> CHR ''&'' \<and> c \<noteq> CHR ''%'' \<and> c \<noteq> CHR ''+''
                   \<and> (32 :: nat) \<le> of_char c) u"


section \<open>Sample configurations\<close>

definition sample_store :: store where
  "sample_store =
     \<lparr>base_url = ''https://db.example'', api_key = ''service-key'', executions = [],
      conversations = [], mint = (\<lambda>n. ''row-'' @ decimal n), outages = [], journal = []\<rparr>"

text \<open>
  Collaborators at work: the knowledge store finds nothing, the LLM writes
  \<open>hello\<close>, the e-mail service accepts the message.
\<close>

definition sample_collab :: "request list \<Rightarrow> request \<Rightarrow> outcome" where
  "sample_collab log req =
     (case req of
        NotionQuery t d p \<Rightarrow> answer 200 (Obj [(''results'', Arr [])])
      | NotionSearch t q \<Rightarrow> answer 200 (Obj [(''results'', Arr [])])
      | AnthropicMessages k u s \<Rightarrow>
          answer 200 (Obj [(''content'', Arr [Obj [(''text'', Str ''hello'')]])])
      | ResendEmail k m \<Rightarrow> answer 200 (Obj [(''id'', Str ''mail-1'')])
      | _ \<Rightarrow> unreachable)"

definition sample_world :: world where
  "sample_world =
     \<lparr>wall = (\<lambda>n. 1000 + int n), tick = 0, iso = (\<lambda>t. ''T'' @ show_int t),
      db = sample_store, collab = sample_collab, collab_log = [],
      trace = (\<lambda>e. [CHR 0x0A] @ ''    at fetch (worker.js)'')\<rparr>"

definition sample_env :: env where
  "sample_env =
     \<lparr>ANTHROPIC_API_KEY = Some ''anthropic-key'', NOTION_TOKEN = Some ''notion-token'',
      NOTION_DATABASE_ID = Some ''voice-db'', SUPABASE_URL = Some ''https://db.example'',
      SUPABASE_KEY = Some ''service-key'', RESEND_API_KEY = Some ''resend-key''\<rparr>"


definition sample_templates :: templates where
  "sample_templates formType formData analysis =
     Inr (\<lambda>submissionDate. Inr (''New submission'', ''<p>Hi Joel,</p>''))"

definition no_body :: "js_error + jsv" where
  "no_body = Inl (JsError ''SyntaxError'' ''Unexpected end of JSON input'')"

text \<open>
  \<open>POST\<close> with the body
  \<open>{"topic": "pricing", "platform": "LinkedIn"}\<close>.
\<close>

definition sample_post :: http_request where
  "sample_post =
     \<lparr>req_method = ''POST'',
      json_body = Inr (Obj [(''topic'', Str ''pricing''), (''platform'', Str ''LinkedIn'')])\<rparr>"


definition sample_put :: http_request where
  "sample_put = \<lparr>req_method = ''PUT'', json_body = no_body\<rparr>"

text \<open>Every collaborator answers 529; the knowledge store alone answers 500.\<close>

definition busy :: "request list \<Rightarrow> request \<Rightarrow> outcome" where
  "busy log req = refusal 529 ''overloaded''"


definition busy_world :: world where
  "busy_world = sample_world\<lparr>collab := busy\<rparr>"






text \<open>
  \<open>POST\<close> with the body
  \<open>{"topic": {"toString": 1}, "platform": "LinkedIn"}\<close>: a topic that has no text.
\<close>

definition textless_post :: http_request where
  "textless_post =
     \<lparr>req_method = ''POST'',
      json_body = Inr (Obj [(''topic'', Obj [(''toString'', Num 1)]),
                            (''platform'', Str ''LinkedIn'')])\<rparr>"

text \<open>The store holding one conversation, of the user \<open>jacob\<close> and closed.\<close>

definition shared_world :: world where
  "shared_world =
     sample_world\<lparr>db := sample_store\<lparr>conversations :=
       [\<lparr>conv_id = ''conv-9'', user_id = Str ''jacob'', conv_status = Str ''closed'',
         conv_created_at = Str ''T0900''\<rparr>]\<rparr>\<rparr>"

text \<open>The LLM busy and the store unreachable; the LLM busy and the clock running back.\<close>

definition cut_off_world :: world where
  "cut_off_world =
     busy_world\<lparr>db := sample_store\<lparr>outages := [Some unreachable, Some unreachable]\<rparr>\<rparr>"

definition backward_world :: world where
  "backward_world = busy_world\<lparr>wall := (\<lambda>n. 1000 - 5 * int n)\<rparr>"

section \<open>Properties\<close>

subsection \<open>Values that have a text\<close>

lemma printable_var [simp]: "printable (var x)"
  by (cases x) (simp_all add: var_def)

lemma to_text_printable: "printable v \<Longrightarrow> to_text v = Inr (to_str v)"
  by (simp add: to_text_def)

lemma to_text_var [simp]: "to_text (var x) = Inr (to_str (var x))"
  by (simp add: to_text_def)

lemma to_text_Str [simp]: "to_text (Str s) = Inr s"
  by (simp add: to_text_def)

lemma andThen_lift_Inr: "andThen (lift (Inr x)) f = f x"
  by (rule ext) (simp add: andThen_def lift_def)


subsection \<open>The logger never throws\<close>

lemma logExecutionStart_with_returns:
  "\<exists>v w'. logExecutionStart_with extra url key cid aid inp w = (Inr v, w') \<and> (v = Null \<or> truthy v)"
  unfolding logExecutionStart_with_def try_catch_def andThen_def ret_def lift_def
    read_text_def read_json_def
  by (auto simp: js_or_def split: prod.splits sum.splits if_splits)

lemma logExecutionComplete_returns:
  "\<exists>w'. logExecutionComplete url key xid outp d w = (Inr (), w')"
  unfolding logExecutionComplete_def try_catch_def andThen_def ret_def lift_def read_text_def
  by (auto split: prod.splits sum.splits if_splits)

lemma logExecutionError_returns:
  "\<exists>w'. logExecutionError url key xid msg d w = (Inr (), w')"
  unfolding logExecutionError_def try_catch_def andThen_def ret_def lift_def read_text_def
  by (auto split: prod.splits sum.splits if_splits)

text \<open>
  C1. None of the three logger operations propagates a failure to its caller. Whatever
  the arguments and whatever the store does (it rejects the connection, answers a
  non-2xx status, answers a body that cannot be read or parsed, or answers anything else),
  \<open>logExecutionStart\<close> returns normally, with null or with a truthy identifier, and
  \<open>logExecutionComplete\<close> and \<open>logExecutionError\<close> return normally.
\<close>

theorem logger_never_throws:
  "(\<exists>v w'. logExecutionStart url key cid aid inp w = (Inr v, w') \<and> (v = Null \<or> truthy v))
   \<and> (\<exists>w'. logExecutionComplete url key xid outp d w = (Inr (), w'))
   \<and> (\<exists>w'. logExecutionError url key xid msg d w = (Inr (), w'))"
  unfolding logExecutionStart_def
  using logExecutionStart_with_returns logExecutionComplete_returns logExecutionError_returns
  by blast

subsection \<open>Frame lemmas\<close>

lemma apart_ret: "apart (ret x)"
  by (simp add: apart_def ret_def)

lemma apart_throw: "apart (throw e)"
  by (simp add: apart_def throw_def)

lemma apart_lift: "apart (lift r)"
  by (simp add: apart_def lift_def)

lemma apart_andThen: "apart m \<Longrightarrow> (\<And>x. apart (f x)) \<Longrightarrow> apart (andThen m f)"
  unfolding apart_def andThen_def
  by (auto split: prod.splits sum.splits)

lemma apart_try_catch: "apart m \<Longrightarrow> (\<And>e. apart (h e)) \<Longrightarrow> apart (try_catch m h)"
  unfolding apart_def try_catch_def
  by (auto split: prod.splits sum.splits)

lemma apart_fetch: "\<not> is_store_request req \<Longrightarrow> apart (fetch req)"
  unfolding apart_def fetch_def deliver_def
  by (auto split: outcome.splits)

lemma apart_read_text: "apart (read_text r)"
  by (simp add: read_text_def apart_lift)

lemma apart_read_json: "apart (read_json r)"
  by (simp add: read_json_def apart_lift)

lemma apart_each: "(\<And>x. apart (f x)) \<Longrightarrow> apart (each f xs)"
  by (induction xs) (auto intro!: apart_andThen apart_ret)

lemmas apart_intros = apart_ret apart_throw apart_lift apart_andThen apart_try_catch apart_fetch
  apart_read_text apart_read_json apart_each

lemma apart_getVoiceExamples: "apart (getVoiceExamples t d p)"
  unfolding getVoiceExamples_def by (auto intro!: apart_intros)

lemma apart_fetch_page: "apart (fetch_page t p)"
  unfolding fetch_page_def by (auto intro!: apart_intros)

lemma apart_searchNotionWorkspace: "apart (searchNotionWorkspace t topic p)"
  unfolding searchNotionWorkspace_def by (auto intro!: apart_intros apart_fetch_page)

lemma apart_generateContent: "apart (generateContent t p s v c k)"
  unfolding generateContent_def by (auto intro!: apart_intros)

lemma apart_domain_logic: "apart (domain_logic env t p s)"
  unfolding domain_logic_def
  by (auto intro!: apart_intros apart_getVoiceExamples apart_searchNotionWorkspace apart_generateContent)

lemma apart_keeps:
  assumes "apart m"
  shows "db (snd (m w)) = db w" and "tick (snd (m w)) = tick w"
proof -
  have "m (w\<lparr>db := db w, tick := tick w\<rparr>) = (fst (m w), (snd (m w))\<lparr>db := db w, tick := tick w\<rparr>)"
    using assms unfolding apart_def by blast
  then have "m w = (fst (m w), (snd (m w))\<lparr>db := db w, tick := tick w\<rparr>)"
    by simp
  then have eq: "snd (m w) = (snd (m w))\<lparr>db := db w, tick := tick w\<rparr>"
    by (metis snd_conv)
  show "db (snd (m w)) = db w"
    by (subst eq) simp
  show "tick (snd (m w)) = tick w"
    by (subst eq) simp
qed

lemma apart_db:
  assumes "apart m"
  shows "m (w\<lparr>db := s\<rparr>) = (fst (m w), (snd (m w))\<lparr>db := s\<rparr>)"
proof -
  have "m (w\<lparr>db := s, tick := tick w\<rparr>) = (fst (m w), (snd (m w))\<lparr>db := s, tick := tick w\<rparr>)"
    using assms unfolding apart_def by blast
  moreover have "(snd (m w))\<lparr>db := s, tick := tick w\<rparr> = (snd (m w))\<lparr>db := s\<rparr>"
    using apart_keeps(2)[OF assms, of w] by (cases "snd (m w)") simp
  ultimately show ?thesis by simp
qed

lemma apart_tick:
  assumes "apart m"
  shows "m (w\<lparr>tick := t\<rparr>) = (fst (m w), (snd (m w))\<lparr>tick := t\<rparr>)"
proof -
  have "m (w\<lparr>db := db w, tick := t\<rparr>) = (fst (m w), (snd (m w))\<lparr>db := db w, tick := t\<rparr>)"
    using assms unfolding apart_def by blast
  moreover have "(snd (m w))\<lparr>db := db w, tick := t\<rparr> = (snd (m w))\<lparr>tick := t\<rparr>"
    using apart_keeps(1)[OF assms, of w] by (cases "snd (m w)") simp
  ultimately show ?thesis by simp
qed

lemma start_frame:
  "\<exists>v. logExecutionStart_with extra url key cid aid inp w =
          (Inr v, w\<lparr>db := db (snd (logExecutionStart_with extra url key cid aid inp w)),
                     tick := Suc (tick w)\<rparr>)
      \<and> (v = Null \<or> truthy v)"
  unfolding logExecutionStart_with_def try_catch_def andThen_def ret_def lift_def
    read_text_def read_json_def new_date_iso_def fetch_def deliver_def
  by (auto simp: js_or_def split: prod.splits sum.splits if_splits outcome.splits)

lemma complete_frame:
  "logExecutionComplete url key xid outp d w =
     (Inr (), w\<lparr>db := db (snd (logExecutionComplete url key xid outp d w))\<rparr>)"
  unfolding logExecutionComplete_def try_catch_def andThen_def ret_def lift_def read_text_def
    fetch_def deliver_def
  by (auto split: prod.splits sum.splits if_splits outcome.splits)

lemma error_frame:
  "logExecutionError url key xid msg d w =
     (Inr (), w\<lparr>db := db (snd (logExecutionError url key xid msg d w))\<rparr>)"
  unfolding logExecutionError_def try_catch_def andThen_def ret_def lift_def read_text_def
    fetch_def deliver_def
  by (auto split: prod.splits sum.splits if_splits outcome.splits)

lemma steady_ret: "steady (ret x)" by (simp add: steady_def ret_def)
lemma steady_throw: "steady (throw e)" by (simp add: steady_def throw_def)
lemma steady_lift: "steady (lift r)" by (simp add: steady_def lift_def)
lemma steady_andThen: "steady m \<Longrightarrow> (\<And>x. steady (f x)) \<Longrightarrow> steady (andThen m f)"
  unfolding steady_def andThen_def by (auto split: prod.splits sum.splits) (metis snd_conv)+
lemma steady_try_catch: "steady m \<Longrightarrow> (\<And>e. steady (h e)) \<Longrightarrow> steady (try_catch m h)"
  unfolding steady_def try_catch_def by (auto split: prod.splits sum.splits) (metis snd_conv)+
lemma steady_fetch: "steady (fetch req)"
  unfolding steady_def fetch_def deliver_def by (auto split: outcome.splits prod.splits)
lemma steady_read_text: "steady (read_text r)" by (simp add: read_text_def steady_lift)
lemma steady_read_json: "steady (read_json r)" by (simp add: read_json_def steady_lift)
lemma steady_each: "(\<And>x. steady (f x)) \<Longrightarrow> steady (each f xs)"
  by (induction xs) (auto intro!: steady_andThen steady_ret)

lemmas steady_intros = steady_ret steady_throw steady_lift steady_andThen steady_try_catch
  steady_fetch steady_read_text steady_read_json steady_each

lemma steady_domain_logic: "steady (domain_logic env t p s)"
  unfolding domain_logic_def getVoiceExamples_def searchNotionWorkspace_def fetch_page_def
    generateContent_def
  by (auto intro!: steady_intros)

lemma domain_logic_keeps:
  "iso (snd (domain_logic env t p s w)) = iso w"
  "wall (snd (domain_logic env t p s w)) = wall w"
  using steady_domain_logic[of env t p s] unfolding steady_def by auto


lemma parse_input_pure: "parse_input request w = (fst (parse_input request w0), w)"
  unfolding parse_input_def andThen_def lift_def throw_def ret_def
  by (auto split: sum.splits prod.splits)

lemma nova_start_shape:
  "\<exists>v D. nova_start env t p s w = (Inr v, w\<lparr>db := D, tick := Suc (tick w)\<rparr>) \<and> (v = Null \<or> truthy v)"
  unfolding nova_start_def using start_frame by blast

lemma nova_complete_shape:
  "\<exists>D. nova_complete env xid t0 outp w =
     (Inr \<lparr>http_status = 200, headers = corsHeaders @ json_header,
           payload = Json (envelope True outp Null xid (Str (iso w (wall w (Suc (tick w))))))\<rparr>,
      w\<lparr>db := D, tick := Suc (Suc (tick w))\<rparr>)"
proof -
  let ?w1 = "w\<lparr>tick := Suc (tick w)\<rparr>"
  obtain D where c: "logExecutionComplete (var (SUPABASE_URL env)) (var (SUPABASE_KEY env)) xid
      outp (Num (wall w (tick w) - t0)) ?w1 = (Inr (), ?w1\<lparr>db := D\<rparr>)"
    using complete_frame by blast
  show ?thesis
    unfolding nova_complete_def andThen_def date_now_def
    by (rule exI[of _ D]) (simp add: c new_date_iso_def ret_def)
qed

lemma nova_catch_shape:
  "\<exists>D. nova_catch env xid t0 e w =
     (Inr \<lparr>http_status = 500, headers = corsHeaders @ json_header,
           payload = Json (envelope False Null (Str (message e)) xid
                             (Str (iso w (wall w (Suc (tick w))))))\<rparr>,
      w\<lparr>db := D, tick := Suc (Suc (tick w))\<rparr>)"
proof -
  let ?w1 = "w\<lparr>tick := Suc (tick w)\<rparr>"
  obtain D where c: "logExecutionError (var (SUPABASE_URL env)) (var (SUPABASE_KEY env)) xid
      (Str (message e)) (Num (wall w (tick w) - t0)) ?w1 = (Inr (), ?w1\<lparr>db := D\<rparr>)"
    using error_frame by blast
  show ?thesis
    unfolding nova_catch_def andThen_def date_now_def
    by (rule exI[of _ D]) (simp add: c new_date_iso_def ret_def)
qed

lemma domain_logic_moved:
  "domain_logic env t p s (w\<lparr>db := D, tick := n\<rparr>) =
     (fst (domain_logic env t p s w), (snd (domain_logic env t p s w))\<lparr>db := D, tick := n\<rparr>)"
  using apart_domain_logic[of env t p s] unfolding apart_def by blast

lemma nova_outcome_moved:
  "nova_outcome env request (w\<lparr>db := D, tick := n\<rparr>) = nova_outcome env request w"
  unfolding nova_outcome_def
  by (simp add: parse_input_pure[of request "w\<lparr>db := D, tick := n\<rparr>" w] domain_logic_moved
           split: sum.splits prod.splits)

subsection \<open>Reading a serialised object\<close>

declare wire.simps(1,2) [simp del]
declare wire_item.simps [simp del]

lemma wire_Obj: "wire (Obj ps) = Obj (sent_props ps)"
  by (simp add: wire.simps(2) sent_props_def)

lemma wire_item_defined: "v \<noteq> Undefined \<Longrightarrow> wire_item v = wire v"
  by (simp add: wire_item.simps)

lemma map_of_sent_props:
  "distinct (map fst ps) \<Longrightarrow>
   map_of (sent_props ps) k =
     (case map_of ps k of None \<Rightarrow> None | Some v \<Rightarrow> if v = Undefined then None else Some (wire v))"
proof (induction ps)
  case Nil
  then show ?case by (simp add: sent_props_def)
next
  case (Cons p ps)
  obtain a b where p: "p = (a, b)" by (cases p)
  from Cons.prems have d: "distinct (map fst ps)" and na: "a \<notin> fst ` set ps"
    by (auto simp: p)
  have none: "map_of ps a = None"
    using na by (simp add: map_of_eq_None_iff)
  show ?case
    using Cons.IH[OF d] none
    by (cases "b = Undefined"; cases "k = a"; simp add: p sent_props_def wire_item.simps)
qed

lemma opt_prop_wire:
  assumes "distinct (map fst ps)"
  shows "opt_prop (wire (Obj ps)) k = (case map_of ps k of None \<Rightarrow> Undefined | Some v \<Rightarrow> wire v)"
proof -
  have "opt_prop (wire (Obj ps)) k =
      (case map_of (sent_props ps) k of Some v \<Rightarrow> v | None \<Rightarrow> Undefined)"
    by (simp add: wire_Obj opt_prop_def)
  then show ?thesis
    by (simp only: map_of_sent_props[OF assms]) (auto split: option.splits)
qed

lemma column_sent:
  "distinct (map fst ps) \<Longrightarrow>
   column (sent_props ps) k =
     (case map_of ps k of None \<Rightarrow> Null | Some v \<Rightarrow> if v = Undefined then Null else wire v)"
  by (simp add: column_def map_of_sent_props split: option.splits)

lemma nullish_wire [simp]: "nullish (wire v) = nullish v"
  by (cases v) (simp_all add: wire.simps(1,2))

lemma opt_prop_nullish [simp]: "opt_prop Undefined k = Undefined" "opt_prop Null k = Undefined"
  by (simp_all add: opt_prop_def)

subsection \<open>The response of Nova\<close>

lemma nova_post_shape:
  "\<exists>xid. (xid = Null \<or> truthy xid) \<and>
     fst (nova_post env request w) =
       Inr (nova_reply (nova_outcome env request w) xid (stamp request w))"
proof (cases "fst (parse_input request w)")
  case (Inl e)
  then have p: "parse_input request (w\<lparr>tick := Suc (tick w)\<rparr>) = (Inl e, w\<lparr>tick := Suc (tick w)\<rparr>)"
    using parse_input_pure[of request "w\<lparr>tick := Suc (tick w)\<rparr>" w] by simp
  obtain D where c: "nova_catch env Null (wall w (tick w)) e (w\<lparr>tick := Suc (tick w)\<rparr>) =
     (Inr \<lparr>http_status = 500, headers = corsHeaders @ json_header,
           payload = Json (envelope False Null (Str (message e)) Null
                             (Str (iso w (wall w (Suc (Suc (tick w)))))))\<rparr>,
      w\<lparr>db := D, tick := Suc (Suc (Suc (tick w)))\<rparr>)"
    using nova_catch_shape[of env Null "wall w (tick w)" e "w\<lparr>tick := Suc (tick w)\<rparr>"] by auto
  show ?thesis
    using Inl
    by (intro exI[of _ Null])
       (simp add: nova_post_def date_now_def nova_try_def p c nova_outcome_def nova_reply_def stamp_def eval_nat_numeral)
next
  case (Inr x)
  obtain topic platform style where x: "x = (topic, platform, style)" by (cases x) auto
  let ?w0 = "w\<lparr>tick := Suc (tick w)\<rparr>"
  have p: "parse_input request ?w0 = (Inr (topic, platform, style), ?w0)"
    using parse_input_pure[of request ?w0 w] Inr x by simp
  obtain xid D1 where st: "nova_start env topic platform style ?w0 = (Inr xid, ?w0\<lparr>db := D1, tick := Suc (tick ?w0)\<rparr>)"
    and xid: "xid = Null \<or> truthy xid"
    using nova_start_shape[of env topic platform style ?w0] by blast
  let ?w1 = "w\<lparr>db := D1, tick := Suc (Suc (tick w))\<rparr>"
  have st': "nova_start env topic platform style ?w0 = (Inr xid, ?w1)" using st by simp
  let ?d = "domain_logic env topic platform style w"
  let ?w2 = "(snd ?d)\<lparr>db := D1, tick := Suc (Suc (tick w))\<rparr>"
  have dl: "domain_logic env topic platform style ?w1 = (fst ?d, ?w2)"
    by (rule domain_logic_moved)
  have keep: "iso (snd ?d) = iso w" "wall (snd ?d) = wall w"
    using domain_logic_keeps by auto
  show ?thesis
  proof (cases "fst ?d")
    case fail: (Inl e)
    obtain D where c: "nova_catch env xid (wall w (tick w)) e ?w2 =
       (Inr \<lparr>http_status = 500, headers = corsHeaders @ json_header,
             payload = Json (envelope False Null (Str (message e)) xid
                               (Str (iso ?w2 (wall ?w2 (Suc (tick ?w2))))))\<rparr>,
        ?w2\<lparr>db := D, tick := Suc (Suc (tick ?w2))\<rparr>)"
      using nova_catch_shape[of env xid "wall w (tick w)" e ?w2] by auto
    show ?thesis
      using Inr x fail xid
      by (intro exI[of _ xid])
         (simp add: nova_post_def date_now_def nova_try_def p st' dl andThen_def c keep
            nova_outcome_def nova_reply_def stamp_def eval_nat_numeral)
  next
    case ok: (Inr outp)
    obtain D where c: "nova_complete env xid (wall w (tick w)) outp ?w2 =
       (Inr \<lparr>http_status = 200, headers = corsHeaders @ json_header,
             payload = Json (envelope True outp Null xid
                               (Str (iso ?w2 (wall ?w2 (Suc (tick ?w2))))))\<rparr>,
        ?w2\<lparr>db := D, tick := Suc (Suc (tick ?w2))\<rparr>)"
      using nova_complete_shape[of env xid "wall w (tick w)" outp ?w2] by auto
    show ?thesis
      using Inr x ok xid
      by (intro exI[of _ xid])
         (simp add: nova_post_def date_now_def nova_try_def p st' dl andThen_def c keep
            nova_outcome_def nova_reply_def stamp_def eval_nat_numeral)
  qed
qed

lemma primary_nova_reply:
  "primary (nova_reply r xid ts) =
     (case r of
        Inr outp \<Rightarrow> (200, Bool True, wire outp, Null)
      | Inl e \<Rightarrow> (500, Bool False, Null, Str (message e)))"
  by (auto simp: primary_def nova_reply_def received_def envelope_def opt_prop_wire
           split: sum.splits)

lemma nova_fetch_not_post:
  "req_method request \<noteq> ''POST'' \<Longrightarrow> nova_fetch env request w = (fst (nova_fetch env request w'), w)"
  by (simp add: nova_fetch_def ret_def)

lemma domain_logic_output:
  "fst (domain_logic env t p s w) = Inr outp \<Longrightarrow> \<exists>ps. outp = Obj ps"
  unfolding domain_logic_def andThen_def ret_def
  by (auto split: prod.splits sum.splits)

lemma nova_outcome_output:
  "nova_outcome env request w = Inr outp \<Longrightarrow> \<exists>ps. outp = Obj ps"
  unfolding nova_outcome_def
  by (auto split: sum.splits prod.splits dest: domain_logic_output)

lemma nova_reply_conforms:
  assumes "\<And>outp. r = Inr outp \<Longrightarrow> \<exists>ps. outp = Obj ps"
  shows "agent_response (received (nova_reply r xid (Str ts)))
       \<and> \<not> exposes_stack (received (nova_reply r xid (Str ts)))"
proof (cases r)
  case (Inl e)
  then show ?thesis
    by (simp add: nova_reply_def received_def envelope_def agent_response_def exposes_stack_def
          opt_prop_wire)
next
  case (Inr outp)
  then obtain ps where "outp = Obj ps" using assms by blast
  with Inr show ?thesis
    by (simp add: nova_reply_def received_def envelope_def agent_response_def exposes_stack_def
          opt_prop_wire)
qed

lemma nova_honours_contract:
  assumes "req_method request = ''POST''"
  shows "\<exists>r. fst (nova_fetch env request w) = Inr r \<and> agent_response (received r)
           \<and> \<not> exposes_stack (received r)
           \<and> (http_status r = 200 \<and> opt_prop (received r) ''success'' = Bool True
              \<or> http_status r = 500 \<and> opt_prop (received r) ''success'' = Bool False)"
proof -
  have post: "nova_fetch env request = nova_post env request"
    using assms by (simp add: nova_fetch_def)
  obtain xid where a: "fst (nova_post env request w) =
      Inr (nova_reply (nova_outcome env request w) xid (stamp request w))"
    using nova_post_shape by blast
  have c: "agent_response (received (nova_reply (nova_outcome env request w) xid (stamp request w)))
       \<and> \<not> exposes_stack (received (nova_reply (nova_outcome env request w) xid (stamp request w)))"
    unfolding stamp_def using nova_reply_conforms nova_outcome_output by blast
  have d: "fst (primary (nova_reply (nova_outcome env request w) xid (stamp request w))) = 200
           \<and> fst (snd (primary (nova_reply (nova_outcome env request w) xid (stamp request w)))) = Bool True
         \<or> fst (primary (nova_reply (nova_outcome env request w) xid (stamp request w))) = 500
           \<and> fst (snd (primary (nova_reply (nova_outcome env request w) xid (stamp request w)))) = Bool False"
    by (simp add: primary_nova_reply split: sum.splits)
  show ?thesis
    unfolding post using a c d by (simp add: primary_def)
qed

subsection \<open>Ada\<close>

lemma aside_ret: "aside (ret x)"
  by (simp add: aside_def ret_def)

lemma aside_throw: "aside (throw e)"
  by (simp add: aside_def throw_def)

lemma aside_lift: "aside (lift r)"
  by (simp add: aside_def lift_def)

lemma aside_andThen: "aside m \<Longrightarrow> (\<And>x. aside (f x)) \<Longrightarrow> aside (andThen m f)"
  unfolding aside_def andThen_def
  by (auto split: prod.splits sum.splits)

lemma aside_try_catch: "aside m \<Longrightarrow> (\<And>e. aside (h e)) \<Longrightarrow> aside (try_catch m h)"
  unfolding aside_def try_catch_def
  by (auto split: prod.splits sum.splits)

lemma aside_fetch: "\<not> is_store_request req \<Longrightarrow> aside (fetch req)"
  unfolding aside_def fetch_def deliver_def
  by (auto split: outcome.splits)

lemma aside_read_json: "aside (read_json r)"
  by (simp add: read_json_def aside_lift)

lemma aside_new_date_iso: "aside new_date_iso"
  by (simp add: aside_def new_date_iso_def)

lemma aside_traced: "aside (\<lambda>w. ret (f (trace w)) w)"
  by (simp add: aside_def ret_def)

lemmas aside_intros = aside_ret aside_throw aside_lift aside_andThen aside_try_catch aside_fetch
  aside_read_json aside_new_date_iso aside_traced

lemma aside_sendEmail: "aside (sendEmail templates formData analysis formType apiKey)"
  unfolding sendEmail_def by (auto intro!: aside_intros)

lemma aside_ada_fetch: "aside (ada_fetch templates env request)"
  unfolding ada_fetch_def ada_post_def by (auto intro!: aside_intros aside_sendEmail)

lemma ada_fetch_moved:
  "fst (ada_fetch templates env request (w\<lparr>db := s\<rparr>)) = fst (ada_fetch templates env request w)"
  using aside_ada_fetch[of templates env request] by (simp add: aside_def)

lemma sendEmail_frame:
  "\<exists>r w'. sendEmail templates formData analysis formType apiKey w = (Inr r, w') \<and> db w' = db w
      \<and> trace w' = trace w
      \<and> (tick w' = tick w \<or> tick w' = Suc (tick w))
      \<and> (collab_log w' = collab_log w
          \<or> (\<exists>body. collab_log w' = collab_log w @ [ResendEmail apiKey body]))"
  unfolding sendEmail_def try_catch_def andThen_def ret_def lift_def read_json_def fetch_def
    deliver_def new_date_iso_def
  by (auto split: prod.splits sum.splits if_splits outcome.splits)

lemma ada_post_frame:
  "\<exists>r w'. ada_post templates env request w = (Inr r, w') \<and> db w' = db w
      \<and> (tick w' = tick w \<or> tick w' = Suc (tick w))
      \<and> (collab_log w' = collab_log w
          \<or> (\<exists>body. collab_log w' = collab_log w @ [ResendEmail (var (RESEND_API_KEY env)) body]))"
proof (cases "json_body request")
  case (Inl e)
  then show ?thesis
    by (simp add: ada_post_def try_catch_def andThen_def ret_def lift_def)
next
  case body: (Inr webhookData)
  show ?thesis
  proof (cases "get webhookData ''data''")
    case (Inl e)
    with body show ?thesis
      by (simp add: ada_post_def try_catch_def andThen_def ret_def lift_def)
  next
    case data: (Inr formData)
    show ?thesis
    proof (cases "determineFormType formData")
      case (Inl e)
      with body data show ?thesis
        by (simp add: ada_post_def try_catch_def andThen_def ret_def lift_def)
    next
      case (Inr formType)
      obtain r w' where sent:
        "sendEmail templates formData (Str ''Test analysis - Claude API skipped for debugging'')
           formType (var (RESEND_API_KEY env)) w = (Inr r, w')"
        "db w' = db w" "tick w' = tick w \<or> tick w' = Suc (tick w)"
        "collab_log w' = collab_log w
         \<or> (\<exists>body. collab_log w' = collab_log w @ [ResendEmail (var (RESEND_API_KEY env)) body])"
        using sendEmail_frame by blast
      with body data Inr show ?thesis
        by (simp add: ada_post_def try_catch_def andThen_def ret_def lift_def)
    qed
  qed
qed

subsection \<open>The store at work\<close>

lemma serving_Suc:
  assumes "serving (Suc n) (outages s)"
  shows "store_fetch req s = serve req (s\<lparr>outages := tl (outages s)\<rparr>)"
    and "serving n (tl (outages s))"
  using assms
  by (cases "outages s"; cases "hd (outages s)"; cases n; simp add: store_fetch_def split: list.splits option.splits)+

lemma decimal_0 [simp]: "decimal 0 = ''0''"
  by code_simp

lemma index_of_0 [simp]: "index_of ''0'' (Suc n) = Some 0"
  by (simp add: index_of_def upt_rec)

lemma get_first [simp]: "get (Arr (x # xs)) ''0'' = Inr x"
  by simp

lemma get_empty [simp]: "get (Arr []) ''0'' = Inr Undefined"
  by (simp add: index_of_def)

lemma non_empty_Arr [simp]: "non_empty (Arr xs) = (xs \<noteq> [])"
  by (simp add: non_empty_def)

lemma is_select_lookup: "is_select s (active_of_user s u)"
  by (simp add: is_select_def active_of_user_def conv_table_def)

lemma split_on_append: "c \<notin> set a \<Longrightarrow> split_on c (a @ c # rest) = a # split_on c rest"
  by (induction a) auto

lemma url_safe_set:
  "url_safe u \<Longrightarrow> CHR ''#'' \<notin> set u \<and> CHR ''&'' \<notin> set u"
  by (auto simp: url_safe_def list_all_iff)

lemma query_of_lookup:
  assumes "url_safe u"
  shows "query_of (''user_id=eq.'' @ u @ ''&status=eq.active&order=created_at.desc&limit=1'')
         = lookup_query u"
proof -
  let ?rest = "''status=eq.active&order=created_at.desc&limit=1''"
  let ?q = "''user_id=eq.'' @ u @ ''&status=eq.active&order=created_at.desc&limit=1''"
  have hash: "CHR ''#'' \<notin> set u" and amp: "CHR ''&'' \<notin> set u"
    using url_safe_set[OF assms] by simp_all
  have "\<forall>x\<in>set ?q. x \<noteq> CHR ''#''"
    using hash by auto
  then have cut: "takeWhile (\<lambda>x. x \<noteq> CHR ''#'') ?q = ?q"
    by (simp only: takeWhile_eq_all_conv)
  have "CHR ''&'' \<notin> set (''user_id=eq.'' @ u)"
    using amp by auto
  then have "split_on CHR ''&'' ((''user_id=eq.'' @ u) @ CHR ''&'' # ?rest)
             = (''user_id=eq.'' @ u) # split_on CHR ''&'' ?rest"
    by (rule split_on_append)
  moreover have "split_on CHR ''&'' ?rest
             = [''status=eq.active'', ''order=created_at.desc'', ''limit=1'']"
    by code_simp
  ultimately have parts: "split_on CHR ''&'' ?q
             = [''user_id=eq.'' @ u, ''status=eq.active'', ''order=created_at.desc'', ''limit=1'']"
    by simp
  show ?thesis
    unfolding query_of_def cut parts lookup_query_def
    by (simp add: parameter_def)
qed

lemma number_1: "number ''1'' = Some 1"
  by code_simp

lemma understood_lookup: "list_all understood (lookup_query u)"
  by (simp add: lookup_query_def understood_def is_filter_def number_1)

lemma selects_lookup:
  "selects (lookup_query u) c = (user_id c = Str u \<and> conv_status c = Str ''active'')"
  by (auto simp: lookup_query_def selects_def is_filter_def conv_column_def)

lemma ordered_lookup: "ordered (lookup_query u) cs = newest_first cs"
  by (simp add: lookup_query_def ordered_def)

lemma limited_lookup: "limited (lookup_query u) cs = take 1 cs"
  by (simp add: lookup_query_def limited_def number_1)

lemma lookup_query_text:
  "drop (length (conv_table s @ ''?'')) (active_of_user s u)
     = ''user_id=eq.'' @ u @ ''&status=eq.active&order=created_at.desc&limit=1''"
proof -
  have "active_of_user s u
      = (conv_table s @ ''?'') @ ''user_id=eq.'' @ u @ ''&status=eq.active&order=created_at.desc&limit=1''"
    by (simp add: active_of_user_def)
  moreover have "drop (length a) (a @ b) = b" for a b :: string
    by simp
  ultimately show ?thesis
    by (simp only:)
qed

lemma tables_outages [simp]:
  "exec_table (s\<lparr>outages := x\<rparr>) = exec_table s"
  "conv_table (s\<lparr>outages := x\<rparr>) = conv_table s"
  by (simp_all add: exec_table_def conv_table_def)

lemma urls_outages [simp]:
  "active_of_user (s\<lparr>outages := x\<rparr>) u = active_of_user s u"
  "exec_by_id (s\<lparr>outages := x\<rparr>) i = exec_by_id s i"
  "is_select (s\<lparr>outages := x\<rparr>) url = is_select s url"
  "is_update (s\<lparr>outages := x\<rparr>) url = is_update s url"
  by (simp_all add: active_of_user_def exec_by_id_def is_select_def is_update_def)

lemma actives_outages [simp]: "actives u (s\<lparr>outages := x\<rparr>) = actives u s"
  by (simp add: actives_def)

lemma serve_lookup:
  assumes "url = active_of_user s u" and "key = api_key s" and "url_safe u"
  shows "serve (StoreGet url key) s = (answer 200 (Arr (map conversation_json (actives u s))), s)"
proof -
  have q: "query_of (drop (length (conv_table s @ ''?'')) (active_of_user s u)) = lookup_query u"
    by (simp only: lookup_query_text query_of_lookup[OF assms(3)])
  show ?thesis
    unfolding serve_def assms(1,2)
    by (simp add: is_select_lookup q Let_def understood_lookup selects_lookup ordered_lookup
          limited_lookup actives_def del: length_append cong: filter_cong)
qed

lemma lookup_served:
  assumes "serving (Suc n) (outages (db w))" and "url_safe u"
  shows "fetch (StoreGet (active_of_user (db w) u) (api_key (db w))) w =
     (Inr \<lparr>code = 200,
           body_text = Inr (stringify (Arr (map conversation_json (actives u (db w))))),
           parsed = Inr (Arr (map conversation_json (actives u (db w))))\<rparr>,
      w\<lparr>db := (db w)\<lparr>outages := tl (outages (db w))\<rparr>\<rparr>)"
proof -
  let ?s = "(db w)\<lparr>outages := tl (outages (db w))\<rparr>"
  have "store_fetch (StoreGet (active_of_user (db w) u) (api_key (db w))) (db w) =
      serve (StoreGet (active_of_user (db w) u) (api_key (db w))) ?s"
    using serving_Suc(1)[OF assms(1)] by simp
  moreover have "serve (StoreGet (active_of_user (db w) u) (api_key (db w))) ?s =
      (answer 200 (Arr (map conversation_json (actives u ?s))), ?s)"
    by (rule serve_lookup) (simp_all add: assms(2))
  ultimately show ?thesis
    by (simp add: fetch_def deliver_def answer_def)
qed

lemma serve_open:
  assumes "url = conv_table s" and "key = api_key s"
  shows "serve (StorePost url key (Obj ps)) s =
     (answer 201 (Arr [conversation_json
         (new_conversation (mint s (length (conversations s))) (sent_props ps))]),
      s\<lparr>conversations := conversations s @
           [new_conversation (mint s (length (conversations s))) (sent_props ps)],
        journal := journal s @
           [Opened (new_conversation (mint s (length (conversations s))) (sent_props ps))]\<rparr>)"
proof -
  have "conv_table s \<noteq> exec_table s"
    by (auto simp: conv_table_def exec_table_def)
  then show ?thesis
    using assms by (simp add: serve_def wire_Obj Let_def)
qed

declare stringify.simps(6,7) [simp del]
declare stringify_item.simps [simp del]

lemma opened_outages [simp]: "opened (s\<lparr>outages := x\<rparr>) u t = opened s u t"
  by (simp add: opened_def)

lemma new_conversation_row:
  "t \<noteq> Undefined \<Longrightarrow>
   new_conversation i (sent_props [(''user_id'', Str u), (''status'', Str ''active''), (''created_at'', t)])
     = \<lparr>conv_id = i, user_id = Str u, conv_status = Str ''active'', conv_created_at = wire t\<rparr>"
  by (simp add: new_conversation_def column_sent)

lemma open_served:
  assumes "serving (Suc n) (outages (db w))"
  shows "fetch (StorePost (conv_table (db w)) (api_key (db w))
                  (Obj [(''user_id'', Str u), (''status'', Str ''active''), (''created_at'', Str t)])) w =
     (Inr \<lparr>code = 201,
           body_text = Inr (stringify (Arr [conversation_json (opened (db w) u (Str t))])),
           parsed = Inr (Arr [conversation_json (opened (db w) u (Str t))])\<rparr>,
      w\<lparr>db := (db w)\<lparr>conversations := conversations (db w) @ [opened (db w) u (Str t)],
                       outages := tl (outages (db w)),
                       journal := journal (db w) @ [Opened (opened (db w) u (Str t))]\<rparr>\<rparr>)"
proof -
  let ?body = "Obj [(''user_id'', Str u), (''status'', Str ''active''), (''created_at'', Str t)]"
  let ?s = "(db w)\<lparr>outages := tl (outages (db w))\<rparr>"
  have "store_fetch (StorePost (conv_table (db w)) (api_key (db w)) ?body) (db w) =
      serve (StorePost (conv_table (db w)) (api_key (db w)) ?body) ?s"
    using serving_Suc(1)[OF assms] by simp
  moreover have "serve (StorePost (conv_table (db w)) (api_key (db w)) ?body) ?s =
     (answer 201 (Arr [conversation_json
         (new_conversation (mint ?s (length (conversations ?s)))
            (sent_props [(''user_id'', Str u), (''status'', Str ''active''), (''created_at'', Str t)]))]),
      ?s\<lparr>conversations := conversations ?s @
           [new_conversation (mint ?s (length (conversations ?s)))
              (sent_props [(''user_id'', Str u), (''status'', Str ''active''), (''created_at'', Str t)])],
        journal := journal ?s @
           [Opened (new_conversation (mint ?s (length (conversations ?s)))
              (sent_props [(''user_id'', Str u), (''status'', Str ''active''), (''created_at'', Str t)]))]\<rparr>)"
    by (rule serve_open) simp_all
  ultimately show ?thesis
    by (simp add: fetch_def deliver_def answer_def new_conversation_row opened_def)
qed

lemma ok_codes [simp]:
  "ok \<lparr>code = 200, body_text = t, parsed = p\<rparr>"
  "ok \<lparr>code = 201, body_text = t, parsed = p\<rparr>"
  "ok \<lparr>code = 204, body_text = t, parsed = p\<rparr>"
  by (simp_all add: ok_def)

lemma newest_first_single [simp]: "newest_first [c] = [c]"
  by (simp add: newest_first_def)

lemma actives_cases:
  "actives u s = [] \<or> (\<exists>c. actives u s = [c] \<and> c \<in> set (conversations s)
      \<and> user_id c = Str u \<and> conv_status c = Str ''active'')"
proof -
  let ?f = "filter (\<lambda>c. user_id c = Str u \<and> conv_status c = Str ''active'') (conversations s)"
  have "set (newest_first ?f) = set ?f"
    by (simp add: newest_first_def)
  then show ?thesis
    unfolding actives_def
    by (cases "newest_first ?f") auto
qed

lemma actives_empty:
  "actives u s = [] \<longleftrightarrow>
     filter (\<lambda>c. user_id c = Str u \<and> conv_status c = Str ''active'') (conversations s) = []"
proof -
  let ?f = "filter (\<lambda>c. user_id c = Str u \<and> conv_status c = Str ''active'') (conversations s)"
  have "length (newest_first ?f) = length ?f"
    by (simp add: newest_first_def)
  then show ?thesis
    unfolding actives_def by (cases "newest_first ?f"; cases ?f) auto
qed

text \<open>The function, called with the address of the store and texts.\<close>

lemma conversation_access:
  "getOrCreateConversation (Str (base_url s)) (Str k) (Str u) =
     try_catch
       (andThen (fetch (StoreGet (active_of_user s u) k)) (\<lambda>checkResponse.
        andThen (read_json checkResponse) (\<lambda>existing.
        if non_empty existing then lift (get existing ''0'')
        else andThen new_date_iso (\<lambda>createdAt.
             andThen (fetch (StorePost (conv_table s) k
                               (Obj [(''user_id'', Str u), (''status'', Str ''active''),
                                     (''created_at'', createdAt)]))) (\<lambda>createResponse.
             andThen (read_json createResponse) (\<lambda>result.
             lift (get result ''0'')))))))
       (\<lambda>error. ret Null)"
  unfolding getOrCreateConversation_def active_of_user_def conv_table_def to_text_Str
    andThen_lift_Inr
  by simp

lemma conversation_found:
  assumes "serving (Suc n) (outages (db w))" and "actives u (db w) = [c]" and "url_safe u"
  shows "getOrCreateConversation (Str (base_url (db w))) (Str (api_key (db w))) (Str u) w =
     (Inr (conversation_json c), w\<lparr>db := (db w)\<lparr>outages := tl (outages (db w))\<rparr>\<rparr>)"
  unfolding conversation_access
  by (simp add: try_catch_def andThen_def lookup_served[OF assms(1,3)] assms(2) read_json_def
        lift_def)

lemma conversation_opened:
  assumes "serving (Suc (Suc n)) (outages (db w))" and "actives u (db w) = []" and "url_safe u"
  shows "getOrCreateConversation (Str (base_url (db w))) (Str (api_key (db w))) (Str u) w =
     (Inr (conversation_json (opened (db w) u (Str (iso w (wall w (tick w)))))),
      w\<lparr>db := (db w)\<lparr>conversations := conversations (db w) @
                          [opened (db w) u (Str (iso w (wall w (tick w))))],
                       outages := tl (tl (outages (db w))),
                       journal := journal (db w) @
                          [Opened (opened (db w) u (Str (iso w (wall w (tick w)))))]\<rparr>,
         tick := Suc (tick w)\<rparr>)"
proof -
  let ?w1 = "w\<lparr>db := (db w)\<lparr>outages := tl (outages (db w))\<rparr>\<rparr>"
  let ?w2 = "?w1\<lparr>tick := Suc (tick w)\<rparr>"
  have s1: "serving (Suc n) (outages (db ?w2))"
    using serving_Suc(2)[OF assms(1)] by simp
  have look: "fetch (StoreGet (active_of_user (db w) u) (api_key (db w))) w =
     (Inr \<lparr>code = 200, body_text = Inr (stringify (Arr [])), parsed = Inr (Arr [])\<rparr>, ?w1)"
    using lookup_served[OF assms(1,3)] assms(2) by simp
  have post: "fetch (StorePost (conv_table (db w)) (api_key (db w))
                  (Obj [(''user_id'', Str u), (''status'', Str ''active''),
                        (''created_at'', Str (iso w (wall w (tick w))))])) ?w2 =
     (Inr \<lparr>code = 201,
           body_text = Inr (stringify (Arr [conversation_json (opened (db ?w2) u (Str (iso w (wall w (tick w)))))])),
           parsed = Inr (Arr [conversation_json (opened (db ?w2) u (Str (iso w (wall w (tick w)))))])\<rparr>,
      ?w2\<lparr>db := (db ?w2)\<lparr>conversations := conversations (db ?w2) @ [opened (db ?w2) u (Str (iso w (wall w (tick w))))],
                       outages := tl (outages (db ?w2)),
                       journal := journal (db ?w2) @ [Opened (opened (db ?w2) u (Str (iso w (wall w (tick w)))))]\<rparr>\<rparr>)"
    using open_served[OF s1, of u "iso w (wall w (tick w))"] by simp
  show ?thesis
    unfolding conversation_access
    using post
    by (simp add: try_catch_def andThen_def look read_json_def lift_def new_date_iso_def)
qed

lemma failure_outcomes [simp]:
  "failure unreachable" "failure (refusal 401 m)" "failure (refusal 400 m)"
  by (simp_all add: unreachable_def refusal_def answer_def ok_def)

lemma serve_insert:
  assumes "url = exec_table s" and "key = api_key s"
  shows "serve (StorePost url key (Obj ps)) s =
     (answer 201 (Arr [execution_json (new_execution (next_id s) (sent_props ps))]),
      s\<lparr>executions := executions s @ [new_execution (next_id s) (sent_props ps)],
        journal := journal s @ [Created (new_execution (next_id s) (sent_props ps))]\<rparr>)"
  using assms by (simp add: serve_def wire_Obj Let_def next_id_def)

lemma log_url_not_conversations:
  "u @ ''/rest/v1/agent_executions'' \<noteq> b @ ''/rest/v1/conversations''"
proof
  assume "u @ ''/rest/v1/agent_executions'' = b @ ''/rest/v1/conversations''"
  then have "rev (u @ ''/rest/v1/agent_executions'') = rev (b @ ''/rest/v1/conversations'')"
    by simp
  then show False by simp
qed

lemma serve_insert_refused:
  assumes "u @ ''/rest/v1/agent_executions'' \<noteq> exec_table s \<or> key \<noteq> api_key s"
  shows "\<exists>out. serve (StorePost (u @ ''/rest/v1/agent_executions'') key body) s = (out, s) \<and> failure out"
  using assms log_url_not_conversations[of u "base_url s"]
  by (auto simp: serve_def conv_table_def)

lemma exec_by_id_inject [simp]: "exec_by_id s i = exec_by_id s j \<longleftrightarrow> i = j"
  by (simp add: exec_by_id_def)

lemma is_update_by_id [simp]: "is_update s (exec_by_id s i)"
  by (simp add: is_update_def exec_by_id_def)

lemma serve_patch:
  assumes "url = exec_by_id s i"
  shows "serve (StorePatch url key (Obj ps)) s =
     (if key = api_key s
      then (no_content,
            s\<lparr>executions := map (\<lambda>r. if exec_id r = i then patched (sent_props ps) r else r) (executions s),
              journal := journal s @ map (\<lambda>r. Updated (exec_id r) (sent_props ps))
                                         (filter (\<lambda>r. exec_id r = i) (executions s))\<rparr>)
      else (refusal 401 ''Invalid API key'', s))"
  using assms by (simp add: serve_def wire_Obj eq_commute[of i] cong: map_cong filter_cong)

lemma start_via_store:
  assumes "printable U" and "printable K"
    and "store_fetch (StorePost (to_str U @ ''/rest/v1/agent_executions'') (to_str K)
              (log_entry extra cid aid inp (Str (iso w (wall w (tick w)))))) (db w) = (out, s')"
  shows "logExecutionStart_with extra U K cid aid inp w =
     (Inr (start_result out), w\<lparr>db := s', tick := Suc (tick w)\<rparr>)"
  using assms(3)
  unfolding logExecutionStart_with_def try_catch_def andThen_def ret_def lift_def
    read_text_def read_json_def new_date_iso_def fetch_def deliver_def start_result_def
    to_text_printable[OF assms(1)] to_text_printable[OF assms(2)]
  by (auto split: prod.splits sum.splits if_splits outcome.splits)

lemma start_result_failure: "failure out \<Longrightarrow> start_result out = Null"
  by (cases out) (auto simp: start_result_def split: sum.splits)

lemma start_result_created:
  "start_result (answer 201 (Arr [execution_json r])) = js_or (Str (exec_id r)) Null"
  by (simp add: start_result_def answer_def execution_json_def opt_prop_def)

lemma new_execution_id [simp]: "exec_id (new_execution i ps) = i"
  by (simp add: new_execution_def)

lemma nova_entry_running:
  "log_entry [(''form_type'', Null)] cid aid inp t = Obj ps \<Longrightarrow>
   status (new_execution i (sent_props ps)) = Str ''running''"
  by (auto simp: log_entry_def new_execution_def column_sent)

lemma honest_tl: "honest plan \<Longrightarrow> honest (tl plan)"
  by (cases plan rule: honest.cases) auto

lemma store_fetch_cases:
  assumes "honest (outages s)"
  shows "(\<exists>out. store_fetch req s = (out, s\<lparr>outages := tl (outages s)\<rparr>) \<and> failure out)
       \<or> store_fetch req s = serve req (s\<lparr>outages := tl (outages s)\<rparr>)"
  using assms
  by (cases "outages s" rule: honest.cases) (auto simp: store_fetch_def)

lemma nova_start_cases:
  assumes "honest (outages (db w))"
  shows "\<exists>v s'. nova_start env t p st w = (Inr v, w\<lparr>db := s', tick := Suc (tick w)\<rparr>)
      \<and> base_url s' = base_url (db w) \<and> api_key s' = api_key (db w)
      \<and> outages s' = tl (outages (db w))
      \<and> ((v = Null \<and> executions s' = executions (db w) \<and> journal s' = journal (db w))
         \<or> (\<exists>r. to_str (var (SUPABASE_URL env)) = base_url (db w)
               \<and> to_str (var (SUPABASE_KEY env)) = api_key (db w)
               \<and> v = js_or (Str (next_id (db w))) Null
               \<and> exec_id r = next_id (db w) \<and> status r = Str ''running''
               \<and> executions s' = executions (db w) @ [r]
               \<and> journal s' = journal (db w) @ [Created r]))"
proof -
  let ?U = "var (SUPABASE_URL env)" and ?K = "var (SUPABASE_KEY env)"
  let ?inp = "Obj [(''topic'', t), (''platform'', p), (''style'', js_or st Null)]"
  let ?entry = "log_entry [(''form_type'', Null)] Null (Str ''nova'') ?inp (Str (iso w (wall w (tick w))))"
  let ?req = "StorePost (to_str ?U @ ''/rest/v1/agent_executions'') (to_str ?K) ?entry"
  let ?s = "(db w)\<lparr>outages := tl (outages (db w))\<rparr>"
  obtain ps where ps: "?entry = Obj ps" by (simp add: log_entry_def)
  have start: "store_fetch ?req (db w) = (out, s') \<Longrightarrow>
      nova_start env t p st w = (Inr (start_result out), w\<lparr>db := s', tick := Suc (tick w)\<rparr>)" for out s'
    unfolding nova_start_def by (rule start_via_store[OF printable_var printable_var])
  consider (down) out where "store_fetch ?req (db w) = (out, ?s)" "failure out"
    | (up) "store_fetch ?req (db w) = serve ?req ?s"
    using store_fetch_cases[OF assms, of ?req] by blast
  then show ?thesis
  proof cases
    case down
    show ?thesis
      using start[OF down(1)] start_result_failure[OF down(2)]
      by (intro exI[of _ Null] exI[of _ ?s]) simp
  next
    case up
    show ?thesis
    proof (cases "to_str ?U @ ''/rest/v1/agent_executions'' = exec_table ?s \<and> to_str ?K = api_key ?s")
      case False
      then obtain out where o: "serve ?req ?s = (out, ?s)" "failure out"
        using serve_insert_refused[of "to_str ?U" ?s "to_str ?K" ?entry] by blast
      show ?thesis
        using start[of out ?s] up o start_result_failure[OF o(2)]
        by (intro exI[of _ Null] exI[of _ ?s]) simp
    next
      case True
      let ?r = "new_execution (next_id ?s) (sent_props ps)"
      have sv: "serve ?req ?s =
         (answer 201 (Arr [execution_json ?r]),
          ?s\<lparr>executions := executions ?s @ [?r], journal := journal ?s @ [Created ?r]\<rparr>)"
        unfolding ps using True by (intro serve_insert) simp_all
      have addr: "to_str ?U = base_url (db w)" "to_str ?K = api_key (db w)"
        using True by (simp_all add: exec_table_def)
      have run: "status ?r = Str ''running''"
        using ps by (rule nova_entry_running)
      have nid: "next_id ?s = next_id (db w)" by (simp add: next_id_def)
      have "\<exists>r. to_str ?U = base_url (db w) \<and> to_str ?K = api_key (db w)
               \<and> js_or (Str (next_id (db w))) Null = js_or (Str (next_id (db w))) Null
               \<and> exec_id r = next_id (db w) \<and> status r = Str ''running''
               \<and> executions (db w) @ [?r] = executions (db w) @ [r]
               \<and> journal (db w) @ [Created ?r] = journal (db w) @ [Created r]"
        using addr run nid by (intro exI[of _ ?r]) simp
      then show ?thesis
        using start[of "answer 201 (Arr [execution_json ?r])"
                "?s\<lparr>executions := executions ?s @ [?r], journal := journal ?s @ [Created ?r]\<rparr>"]
          up sv nid
        by (intro exI[of _ "js_or (Str (next_id (db w))) Null"]
              exI[of _ "?s\<lparr>executions := executions ?s @ [?r], journal := journal ?s @ [Created ?r]\<rparr>"])
           (simp add: start_result_created)
    qed
  qed
qed

lemma store_fetch_any:
  "(\<exists>out. outages s \<noteq> [] \<and> hd (outages s) = Some out
           \<and> store_fetch req s = (out, s\<lparr>outages := tl (outages s)\<rparr>))
   \<or> (serving (Suc 0) (outages s) \<and> store_fetch req s = serve req (s\<lparr>outages := tl (outages s)\<rparr>))"
  by (cases "outages s" rule: honest.cases) (auto simp: store_fetch_def)

lemma error_via_store:
  assumes "printable U" and "printable K" and "printable xid"
    and "store_fetch (StorePatch (to_str U @ ''/rest/v1/agent_executions?id=eq.'' @ to_str xid)
              (to_str K)
              (Obj [(''status'', Str ''error''), (''error_message'', msg), (''duration_ms'', d)]))
             (db w) = (out, s')"
    and "truthy xid"
  shows "logExecutionError U K xid msg d w = (Inr (), w\<lparr>db := s'\<rparr>)"
  using assms(4,5)
  unfolding logExecutionError_def try_catch_def andThen_def ret_def lift_def read_text_def
    fetch_def deliver_def
    to_text_printable[OF assms(1)] to_text_printable[OF assms(2)] to_text_printable[OF assms(3)]
  by (auto split: prod.splits sum.splits if_splits outcome.splits)

lemma complete_via_store:
  assumes "printable U" and "printable K" and "printable xid"
    and "store_fetch (StorePatch (to_str U @ ''/rest/v1/agent_executions?id=eq.'' @ to_str xid)
              (to_str K)
              (Obj [(''output'', outp), (''status'', Str ''success''), (''duration_ms'', d)]))
             (db w) = (out, s')"
    and "truthy xid"
  shows "logExecutionComplete U K xid outp d w = (Inr (), w\<lparr>db := s'\<rparr>)"
  using assms(4,5)
  unfolding logExecutionComplete_def try_catch_def andThen_def ret_def lift_def read_text_def
    fetch_def deliver_def
    to_text_printable[OF assms(1)] to_text_printable[OF assms(2)] to_text_printable[OF assms(3)]
  by (auto split: prod.splits sum.splits if_splits outcome.splits)

lemma patch_address:
  "to_str U = base_url s \<Longrightarrow>
   to_str U @ ''/rest/v1/agent_executions?id=eq.'' @ to_str (Str i) = exec_by_id s i"
  by (simp add: exec_by_id_def exec_table_def)

lemma patch_cases:
  assumes "store_fetch (StorePatch (exec_by_id s i) key (Obj body)) s = (out, s')"
  shows "(untouched s s' \<or> updated i (sent_props body) s s')
       \<and> (serving (Suc 0) (outages s) \<and> key = api_key s \<longrightarrow> updated i (sent_props body) s s')"
proof -
  let ?req = "StorePatch (exec_by_id s i) key (Obj body)"
  let ?s = "s\<lparr>outages := tl (outages s)\<rparr>"
  consider (down) o' where "outages s \<noteq> []" "hd (outages s) = Some o'" "store_fetch ?req s = (o', ?s)"
    | (up) "serving (Suc 0) (outages s)" "store_fetch ?req s = serve ?req ?s"
    using store_fetch_any[of s ?req] by blast
  then show ?thesis
  proof cases
    case down
    then have "\<not> serving (Suc 0) (outages s)"
      by (cases "outages s") auto
    with down assms show ?thesis by (auto simp: untouched_def)
  next
    case up
    have "serve ?req ?s =
       (if key = api_key ?s
        then (no_content,
              ?s\<lparr>executions := map (\<lambda>r. if exec_id r = i then patched (sent_props body) r else r) (executions ?s),
                  journal := journal ?s @ map (\<lambda>r. Updated (exec_id r) (sent_props body))
                                             (filter (\<lambda>r. exec_id r = i) (executions ?s))\<rparr>)
        else (refusal 401 ''Invalid API key'', ?s))"
      by (rule serve_patch) simp
    with up assms show ?thesis
      by (auto simp: untouched_def updated_def split: if_splits)
  qed
qed

lemma nova_post_unfold:
  "nova_post env request w =
     (case parse_input request (w\<lparr>tick := Suc (tick w)\<rparr>) of
        (Inl e, w1) \<Rightarrow> nova_catch env Null (wall w (tick w)) e w1
      | (Inr (t, p, st), w1) \<Rightarrow>
          (case nova_start env t p st w1 of
             (Inl e, w2) \<Rightarrow> nova_catch env Null (wall w (tick w)) e w2
           | (Inr v, w2) \<Rightarrow>
               (case domain_logic env t p st w2 of
                  (Inl e, w3) \<Rightarrow> nova_catch env v (wall w (tick w)) e w3
                | (Inr outp, w3) \<Rightarrow> nova_complete env v (wall w (tick w)) outp w3)))"
proof -
  have c: "nova_complete env v t0 outp W = (Inl e, W') \<Longrightarrow> False" for v t0 outp W e W'
    using nova_complete_shape[of env v t0 outp W] by auto
  show ?thesis
    unfolding nova_post_def nova_try_def date_now_def andThen_def
    by (auto split: prod.splits sum.splits dest: c)
qed

lemma nova_catch_db:
  "db (snd (nova_catch env v t0 e W)) =
     db (snd (logExecutionError (var (SUPABASE_URL env)) (var (SUPABASE_KEY env)) v
                (Str (message e)) (Num (wall W (tick W) - t0)) (W\<lparr>tick := Suc (tick W)\<rparr>)))"
proof -
  obtain D where "logExecutionError (var (SUPABASE_URL env)) (var (SUPABASE_KEY env)) v
      (Str (message e)) (Num (wall W (tick W) - t0)) (W\<lparr>tick := Suc (tick W)\<rparr>)
      = (Inr (), W\<lparr>tick := Suc (tick W), db := D\<rparr>)"
    using error_frame by blast
  then show ?thesis
    unfolding nova_catch_def andThen_def date_now_def
    by (simp add: new_date_iso_def ret_def)
qed

lemma nova_complete_db:
  "db (snd (nova_complete env v t0 outp W)) =
     db (snd (logExecutionComplete (var (SUPABASE_URL env)) (var (SUPABASE_KEY env)) v
                outp (Num (wall W (tick W) - t0)) (W\<lparr>tick := Suc (tick W)\<rparr>)))"
proof -
  obtain D where "logExecutionComplete (var (SUPABASE_URL env)) (var (SUPABASE_KEY env)) v
      outp (Num (wall W (tick W) - t0)) (W\<lparr>tick := Suc (tick W)\<rparr>)
      = (Inr (), W\<lparr>tick := Suc (tick W), db := D\<rparr>)"
    using complete_frame by blast
  then show ?thesis
    unfolding nova_complete_def andThen_def date_now_def
    by (simp add: new_date_iso_def ret_def)
qed

lemma log_nothing:
  "\<not> truthy v \<Longrightarrow> logExecutionError U K v m d W = (Inr (), W)"
  "\<not> truthy v \<Longrightarrow> logExecutionComplete U K v outp d W = (Inr (), W)"
  by (simp_all add: logExecutionError_def logExecutionComplete_def ret_def)

text \<open>The terminal write of an invocation, on a store \<open>s\<close> that holds its record.\<close>

lemma terminal_write_error:
  assumes "printable U" and "printable K" and "to_str U = base_url (db W)" and "i \<noteq> []"
  shows "\<exists>s'. db (snd (logExecutionError U K (Str i) m d W)) = s'
      \<and> (untouched (db W) s'
         \<or> updated i (sent_props [(''status'', Str ''error''), (''error_message'', m), (''duration_ms'', d)])
              (db W) s')
      \<and> (serving (Suc 0) (outages (db W)) \<and> to_str K = api_key (db W) \<longrightarrow>
           updated i (sent_props [(''status'', Str ''error''), (''error_message'', m), (''duration_ms'', d)])
              (db W) s')"
proof -
  let ?body = "[(''status'', Str ''error''), (''error_message'', m), (''duration_ms'', d)]"
  obtain out s' where sf: "store_fetch (StorePatch (exec_by_id (db W) i) (to_str K) (Obj ?body)) (db W) = (out, s')"
    by (cases "store_fetch (StorePatch (exec_by_id (db W) i) (to_str K) (Obj ?body)) (db W)") auto
  have "store_fetch (StorePatch (to_str U @ ''/rest/v1/agent_executions?id=eq.'' @ to_str (Str i))
            (to_str K) (Obj ?body)) (db W) = (out, s')"
    using sf by (simp only: patch_address[OF assms(3)])
  then have "logExecutionError U K (Str i) m d W = (Inr (), W\<lparr>db := s'\<rparr>)"
    using assms(4) by (intro error_via_store[OF assms(1,2)]) simp_all
  then show ?thesis
    using patch_cases[OF sf] by simp
qed

lemma terminal_write_complete:
  assumes "printable U" and "printable K" and "to_str U = base_url (db W)" and "i \<noteq> []"
  shows "\<exists>s'. db (snd (logExecutionComplete U K (Str i) outp d W)) = s'
      \<and> (untouched (db W) s'
         \<or> updated i (sent_props [(''output'', outp), (''status'', Str ''success''), (''duration_ms'', d)])
              (db W) s')
      \<and> (serving (Suc 0) (outages (db W)) \<and> to_str K = api_key (db W) \<longrightarrow>
           updated i (sent_props [(''output'', outp), (''status'', Str ''success''), (''duration_ms'', d)])
              (db W) s')"
proof -
  let ?body = "[(''output'', outp), (''status'', Str ''success''), (''duration_ms'', d)]"
  obtain out s' where sf: "store_fetch (StorePatch (exec_by_id (db W) i) (to_str K) (Obj ?body)) (db W) = (out, s')"
    by (cases "store_fetch (StorePatch (exec_by_id (db W) i) (to_str K) (Obj ?body)) (db W)") auto
  have "store_fetch (StorePatch (to_str U @ ''/rest/v1/agent_executions?id=eq.'' @ to_str (Str i))
            (to_str K) (Obj ?body)) (db W) = (out, s')"
    using sf by (simp only: patch_address[OF assms(3)])
  then have "logExecutionComplete U K (Str i) outp d W = (Inr (), W\<lparr>db := s'\<rparr>)"
    using assms(4) by (intro complete_via_store[OF assms(1,2)]) simp_all
  then show ?thesis
    using patch_cases[OF sf] by simp
qed

lemma terminal_patches:
  "terminal_patch (sent_props [(''status'', Str ''error''), (''error_message'', m), (''duration_ms'', d)])"
  "terminal_patch (sent_props [(''output'', outp), (''status'', Str ''success''), (''duration_ms'', d)])"
  by (simp_all add: terminal_patch_def map_of_sent_props)

text \<open>An update by a new identifier reaches the new record only.\<close>

lemma updated_new_record:
  assumes "updated i ps s1 s2" and "executions s1 = old @ [r]" and "journal s1 = j @ [Created r]"
    and "exec_id r = i" and "i \<notin> set (map exec_id old)"
  shows "executions s2 = old @ [patched ps r]" and "journal s2 = j @ [Created r, Updated i ps]"
proof -
  have "map (\<lambda>r. if exec_id r = i then patched ps r else r) old = old"
    using assms(5) by (induction old) auto
  moreover have "filter (\<lambda>r. exec_id r = i) old = []"
    using assms(5) by (induction old) auto
  ultimately show "executions s2 = old @ [patched ps r]"
    and "journal s2 = j @ [Created r, Updated i ps]"
    using assms(1-4) by (simp_all add: updated_def)
qed

text \<open>The store after the end of the try block or the catch block.\<close>

lemma nova_end_db:
  assumes "db W = s1"
  shows "\<not> truthy v \<Longrightarrow> db (snd (nova_catch env v t0 e W)) = s1"
    and "\<not> truthy v \<Longrightarrow> db (snd (nova_complete env v t0 outp W)) = s1"
    and "to_str (var (SUPABASE_URL env)) = base_url s1 \<Longrightarrow> i \<noteq> [] \<Longrightarrow>
         \<exists>ps. terminal_patch ps
           \<and> (untouched s1 (db (snd (nova_catch env (Str i) t0 e W)))
              \<or> updated i ps s1 (db (snd (nova_catch env (Str i) t0 e W))))"
    and "to_str (var (SUPABASE_URL env)) = base_url s1 \<Longrightarrow> i \<noteq> [] \<Longrightarrow>
         \<exists>ps. terminal_patch ps
           \<and> (untouched s1 (db (snd (nova_complete env (Str i) t0 outp W)))
              \<or> updated i ps s1 (db (snd (nova_complete env (Str i) t0 outp W))))"
proof -
  let ?W = "W\<lparr>tick := Suc (tick W)\<rparr>"
  have dbW: "db ?W = s1" using assms by simp
  show "\<not> truthy v \<Longrightarrow> db (snd (nova_catch env v t0 e W)) = s1"
    using dbW by (simp add: nova_catch_db log_nothing)
  show "\<not> truthy v \<Longrightarrow> db (snd (nova_complete env v t0 outp W)) = s1"
    using dbW by (simp add: nova_complete_db log_nothing)
  show "\<exists>ps. terminal_patch ps
           \<and> (untouched s1 (db (snd (nova_catch env (Str i) t0 e W)))
              \<or> updated i ps s1 (db (snd (nova_catch env (Str i) t0 e W))))"
    if "to_str (var (SUPABASE_URL env)) = base_url s1" "i \<noteq> []"
    using terminal_write_error[of "var (SUPABASE_URL env)" "var (SUPABASE_KEY env)" ?W i
            "Str (message e)" "Num (wall W (tick W) - t0)", OF printable_var printable_var]
          that dbW terminal_patches(1)
    unfolding nova_catch_db by auto
  show "\<exists>ps. terminal_patch ps
           \<and> (untouched s1 (db (snd (nova_complete env (Str i) t0 outp W)))
              \<or> updated i ps s1 (db (snd (nova_complete env (Str i) t0 outp W))))"
    if "to_str (var (SUPABASE_URL env)) = base_url s1" "i \<noteq> []"
    using terminal_write_complete[of "var (SUPABASE_URL env)" "var (SUPABASE_KEY env)" ?W i
            outp "Num (wall W (tick W) - t0)", OF printable_var printable_var]
          that dbW terminal_patches(2)
    unfolding nova_complete_db by auto
qed

lemma nova_end_cases:
  assumes "db W = s1"
  shows "\<not> truthy v \<Longrightarrow> db (snd (nova_end env v t0 r W)) = s1"
    and "to_str (var (SUPABASE_URL env)) = base_url s1 \<Longrightarrow> i \<noteq> [] \<Longrightarrow>
         \<exists>ps. terminal_patch ps
           \<and> (untouched s1 (db (snd (nova_end env (Str i) t0 r W)))
              \<or> updated i ps s1 (db (snd (nova_end env (Str i) t0 r W))))"
  using nova_end_db[OF assms] by (cases r; simp add: nova_end_def)+

lemma nova_post_end:
  assumes "fst (parse_input request w) = Inr (t, p, st)"
    and "nova_start env t p st (w\<lparr>tick := Suc (tick w)\<rparr>) = (Inr v, w\<lparr>db := s1, tick := Suc (Suc (tick w))\<rparr>)"
  shows "nova_post env request w =
     nova_end env v (wall w (tick w)) (fst (domain_logic env t p st w))
       ((snd (domain_logic env t p st w))\<lparr>db := s1, tick := Suc (Suc (tick w))\<rparr>)"
proof -
  have p: "parse_input request (w\<lparr>tick := Suc (tick w)\<rparr>) = (Inr (t, p, st), w\<lparr>tick := Suc (tick w)\<rparr>)"
    using parse_input_pure[of request "w\<lparr>tick := Suc (tick w)\<rparr>" w] assms(1) by simp
  show ?thesis
    unfolding nova_post_unfold
    by (simp add: p assms(2) domain_logic_moved nova_end_def split: sum.splits)
qed

lemma nova_post_unparsed:
  assumes "fst (parse_input request w) = Inl e"
  shows "db (snd (nova_post env request w)) = db w"
proof -
  have p: "parse_input request (w\<lparr>tick := Suc (tick w)\<rparr>) = (Inl e, w\<lparr>tick := Suc (tick w)\<rparr>)"
    using parse_input_pure[of request "w\<lparr>tick := Suc (tick w)\<rparr>" w] assms(1) by simp
  show ?thesis
    unfolding nova_post_unfold
    by (simp add: p nova_end_db(1)[of "w\<lparr>tick := Suc (tick w)\<rparr>" "db w"])
qed

lemma nova_start_served:
  assumes "configured env (db w)" and "serving (Suc n) (outages (db w))"
  shows "\<exists>r. nova_start env t p st w =
        (Inr (js_or (Str (next_id (db w))) Null),
         w\<lparr>db := (db w)\<lparr>executions := executions (db w) @ [r],
                          outages := tl (outages (db w)),
                          journal := journal (db w) @ [Created r]\<rparr>,
            tick := Suc (tick w)\<rparr>)
      \<and> exec_id r = next_id (db w) \<and> status r = Str ''running''"
proof -
  let ?U = "var (SUPABASE_URL env)" and ?K = "var (SUPABASE_KEY env)"
  let ?inp = "Obj [(''topic'', t), (''platform'', p), (''style'', js_or st Null)]"
  let ?entry = "log_entry [(''form_type'', Null)] Null (Str ''nova'') ?inp (Str (iso w (wall w (tick w))))"
  let ?req = "StorePost (to_str ?U @ ''/rest/v1/agent_executions'') (to_str ?K) ?entry"
  let ?s = "(db w)\<lparr>outages := tl (outages (db w))\<rparr>"
  obtain ps where ps: "?entry = Obj ps" by (simp add: log_entry_def)
  let ?r = "new_execution (next_id ?s) (sent_props ps)"
  have addr: "to_str ?U @ ''/rest/v1/agent_executions'' = exec_table ?s" "to_str ?K = api_key ?s"
    using assms(1) by (simp_all add: configured_def var_def exec_table_def)
  have sv: "serve ?req ?s =
     (answer 201 (Arr [execution_json ?r]),
      ?s\<lparr>executions := executions ?s @ [?r], journal := journal ?s @ [Created ?r]\<rparr>)"
    unfolding ps using addr by (intro serve_insert) simp_all
  have sf: "store_fetch ?req (db w) =
     (answer 201 (Arr [execution_json ?r]),
      ?s\<lparr>executions := executions ?s @ [?r], journal := journal ?s @ [Created ?r]\<rparr>)"
    using serving_Suc(1)[OF assms(2), of ?req] sv by simp
  have run: "status ?r = Str ''running''"
    using ps by (rule nova_entry_running)
  have nid: "next_id ?s = next_id (db w)" by (simp add: next_id_def)
  have "nova_start env t p st w =
     (Inr (start_result (answer 201 (Arr [execution_json ?r]))),
      w\<lparr>db := ?s\<lparr>executions := executions ?s @ [?r], journal := journal ?s @ [Created ?r]\<rparr>,
         tick := Suc (tick w)\<rparr>)"
    unfolding nova_start_def using sf by (rule start_via_store[OF printable_var printable_var])
  then show ?thesis
    using run nid by (intro exI[of _ ?r]) (simp add: start_result_created)
qed

lemma patched_error:
  "status (patched (sent_props [(''status'', Str ''error''), (''error_message'', m), (''duration_ms'', Num d)]) r)
     = Str ''error''"
  "m \<noteq> Undefined \<Longrightarrow>
   error_message (patched (sent_props [(''status'', Str ''error''), (''error_message'', m), (''duration_ms'', Num d)]) r)
     = wire m"
  "duration_ms (patched (sent_props [(''status'', Str ''error''), (''error_message'', m), (''duration_ms'', Num d)]) r)
     = Num d"
  "exec_id (patched ps r) = exec_id r"
  by (simp_all add: patched_def over_def map_of_sent_props)

lemma serving_2: "serving 2 plan \<Longrightarrow> serving (Suc (Suc 0)) plan"
  by (simp add: eval_nat_numeral)

subsection \<open>Failing collaborators\<close>



lemma generateContent_unbuilt:
  assumes "thenE (buildSystemPrompt p v c) (\<lambda>sys. buildUserPrompt t p s) = Inl e"
  shows "generateContent t p s v c k W = (Inl e, W)"
  using assms
  unfolding generateContent_def andThen_def lift_def thenE_def
  by (auto split: sum.splits)

lemma getVoiceExamples_returns:
  "\<exists>xs W'. getVoiceExamples a b c W = (Inr xs, W') \<and> collab W' = collab W"
proof -
  have "steady (getVoiceExamples a b c)"
    unfolding getVoiceExamples_def by (auto intro!: steady_intros)
  then have "collab (snd (getVoiceExamples a b c W)) = collab W"
    by (simp add: steady_def)
  moreover have "\<exists>xs. fst (getVoiceExamples a b c W) = Inr xs"
    unfolding getVoiceExamples_def try_catch_def ret_def
    by (auto split: prod.splits sum.splits)
  ultimately show ?thesis
    by (cases "getVoiceExamples a b c W") auto
qed

lemma searchNotionWorkspace_returns:
  "\<exists>xs W'. searchNotionWorkspace a b c W = (Inr xs, W') \<and> collab W' = collab W"
proof -
  have "steady (searchNotionWorkspace a b c)"
    unfolding searchNotionWorkspace_def fetch_page_def by (auto intro!: steady_intros)
  then have "collab (snd (searchNotionWorkspace a b c W)) = collab W"
    by (simp add: steady_def)
  moreover have "\<exists>xs. fst (searchNotionWorkspace a b c W) = Inr xs"
    unfolding searchNotionWorkspace_def try_catch_def ret_def
    by (auto split: prod.splits sum.splits)
  ultimately show ?thesis
    by (cases "searchNotionWorkspace a b c W") auto
qed

lemma gathered_eq:
  assumes "getVoiceExamples (var (NOTION_TOKEN env)) (var (NOTION_DATABASE_ID env)) p w = (Inr vs, W1)"
    and "searchNotionWorkspace (var (NOTION_TOKEN env)) t p W1 = (Inr cs, W2)"
  shows "gathered env t p w = (vs, cs)"
  by (simp add: gathered_def assms)



lemma domain_logic_unbuilt:
  assumes "prompts env t p s w = Inl e"
  shows "fst (domain_logic env t p s w) = Inl e"
proof -
  obtain vs W1 where v: "getVoiceExamples (var (NOTION_TOKEN env)) (var (NOTION_DATABASE_ID env)) p w = (Inr vs, W1)"
    using getVoiceExamples_returns by blast
  obtain cs W2 where s: "searchNotionWorkspace (var (NOTION_TOKEN env)) t p W1 = (Inr cs, W2)"
    using searchNotionWorkspace_returns by blast
  have "thenE (buildSystemPrompt p vs cs) (\<lambda>sys. buildUserPrompt t p s) = Inl e"
    using assms unfolding prompts_def gathered_eq[OF v s]
    by (auto simp: thenE_def split: sum.splits)
  then have "generateContent t p s vs cs (var (ANTHROPIC_API_KEY env)) W2 = (Inl e, W2)"
    by (rule generateContent_unbuilt)
  then show ?thesis
    unfolding domain_logic_def andThen_def using v s by simp
qed




subsection \<open>The response contract\<close>

text \<open>
  Nova keeps the contract on every POST: the handler returns (it does not throw), the
  body is an AgentResponse without a stack trace, and the status is 200 with
  \<open>success: true\<close> or 500 with \<open>success: false\<close> (lemma \<open>nova_honours_contract\<close>
  above). Ada does not.

  C2 at Ada. A well-formed webhook (form name \<open>Request for Help\<close>, no fields) is
  answered with 200 and \<open>success: true\<close> but without \<open>output\<close>, so the body is not
  an AgentResponse. A webhook whose \<open>data\<close> has neither \<open>formName\<close> nor \<open>fields\<close>
  makes \<open>determineFormType\<close> throw; the answer is 500 and its body carries
  \<open>error.stack\<close>: the text of the TypeError and the frame lines of the runtime.
\<close>

theorem ada_breaks_contract:
  "(\<exists>r w'. ada_fetch templates env
       \<lparr>req_method = ''POST'',
        json_body = Inr (Obj [(''data'', Obj [(''formName'', Str ''Request for Help''),
                                              (''fields'', Arr [])])])\<rparr> w = (Inr r, w')
       \<and> http_status r = 200
       \<and> opt_prop (received r) ''success'' = Bool True
       \<and> opt_prop (received r) ''output'' = Undefined
       \<and> \<not> agent_response (received r))
   \<and> (\<exists>r. ada_fetch templates env
       \<lparr>req_method = ''POST'', json_body = Inr (Obj [(''data'', Obj [])])\<rparr> w = (Inr r, w)
       \<and> http_status r = 500
       \<and> opt_prop (received r) ''stack'' = Str (stack (trace w) (cannot_read Undefined ''map''))
       \<and> exposes_stack (received r)
       \<and> \<not> agent_response (received r))"
proof
  let ?fd = "Obj [(''formName'', Str ''Request for Help''), (''fields'', Arr [])]"
  have ft: "determineFormType ?fd = Inr ''request''"
    by code_simp
  obtain e w' where sent:
    "sendEmail templates ?fd (Str ''Test analysis - Claude API skipped for debugging'')
       ''request'' (var (RESEND_API_KEY env)) w = (Inr e, w')"
    using sendEmail_frame by blast
  show "\<exists>r w'. ada_fetch templates env
       \<lparr>req_method = ''POST'', json_body = Inr (Obj [(''data'', ?fd)])\<rparr> w = (Inr r, w')
       \<and> http_status r = 200
       \<and> opt_prop (received r) ''success'' = Bool True
       \<and> opt_prop (received r) ''output'' = Undefined
       \<and> \<not> agent_response (received r)"
    by (simp add: ada_fetch_def ada_post_def try_catch_def andThen_def lift_def ret_def ft sent
          received_def ada_success_def opt_prop_wire agent_response_def)
next
  have ft: "determineFormType (Obj []) = Inl (cannot_read Undefined ''map'')"
    by code_simp
  show "\<exists>r. ada_fetch templates env
       \<lparr>req_method = ''POST'', json_body = Inr (Obj [(''data'', Obj [])])\<rparr> w = (Inr r, w)
       \<and> http_status r = 500
       \<and> opt_prop (received r) ''stack'' = Str (stack (trace w) (cannot_read Undefined ''map''))
       \<and> exposes_stack (received r)
       \<and> \<not> agent_response (received r)"
    by (simp add: ada_fetch_def ada_post_def try_catch_def andThen_def lift_def ret_def ft
          received_def ada_failure_def opt_prop_wire agent_response_def exposes_stack_def)
qed

subsection \<open>Logging failures are invisible\<close>

text \<open>
  C4. Two runs of a handler that differ only in the logging store (its content, its
  address, whether and how it fails) give the same primary response: the same HTTP
  status, the same \<open>success\<close>, the same \<open>output\<close> and the same \<open>error\<close>. This
  holds for every request to Nova; Ada, which does not use the store, gives the same
  response altogether.
\<close>

theorem store_invisible:
  "(\<exists>r r'. fst (nova_fetch env request w) = Inr r
       \<and> fst (nova_fetch env request (w\<lparr>db := s\<rparr>)) = Inr r'
       \<and> primary r' = primary r)
   \<and> fst (ada_fetch templates env request (w\<lparr>db := s\<rparr>)) = fst (ada_fetch templates env request w)"
proof
  show "\<exists>r r'. fst (nova_fetch env request w) = Inr r
       \<and> fst (nova_fetch env request (w\<lparr>db := s\<rparr>)) = Inr r'
       \<and> primary r' = primary r"
  proof (cases "req_method request = ''POST''")
    case False
    then show ?thesis by (simp add: nova_fetch_def ret_def)
  next
    case True
    then have post: "nova_fetch env request = nova_post env request"
      by (simp add: nova_fetch_def)
    obtain xid where a: "fst (nova_post env request w) =
        Inr (nova_reply (nova_outcome env request w) xid (stamp request w))"
      using nova_post_shape by blast
    obtain xid' where b: "fst (nova_post env request (w\<lparr>db := s\<rparr>)) =
        Inr (nova_reply (nova_outcome env request (w\<lparr>db := s\<rparr>)) xid'
               (stamp request (w\<lparr>db := s\<rparr>)))"
      using nova_post_shape by blast
    have "nova_outcome env request (w\<lparr>db := s, tick := tick w\<rparr>) = nova_outcome env request w"
      by (rule nova_outcome_moved)
    then have c: "nova_outcome env request (w\<lparr>db := s\<rparr>) = nova_outcome env request w"
      by simp
    show ?thesis
      unfolding post using a b c by (simp add: primary_nova_reply)
  qed
next
  show "fst (ada_fetch templates env request (w\<lparr>db := s\<rparr>)) = fst (ada_fetch templates env request w)"
    by (rule ada_fetch_moved)
qed

text \<open>
  With the sample request, the store at work and the store unreachable: both times
  200, \<open>success: true\<close> and the same output.
\<close>

lemma store_invisible_sample:
  "primary (projr (fst (nova_fetch sample_env sample_post sample_world))) =
     (200, Bool True,
      Obj [(''draft'', Str ''hello''), (''voiceExamplesUsed'', Num 0), (''contextDocsUsed'', Num 0)],
      Null)
   \<and> primary (projr (fst (nova_fetch sample_env sample_post
        (sample_world\<lparr>db := sample_store\<lparr>outages := [Some unreachable, Some unreachable]\<rparr>\<rparr>)))) =
     (200, Bool True,
      Obj [(''draft'', Str ''hello''), (''voiceExamplesUsed'', Num 0), (''contextDocsUsed'', Num 0)],
      Null)"
  by code_simp

subsection \<open>The liveness probe\<close>




subsection \<open>Other methods\<close>

text \<open>
  C7, as the code has it. A request whose method is not GET or POST (and, for Nova, not
  OPTIONS) is answered with HTTP 405 and the text body \<open>Method not allowed\<close>. The
  handler makes no outbound call and writes no execution record: the world is unchanged.
\<close>

theorem not_allowed:
  assumes "req_method request \<noteq> ''GET''" and "req_method request \<noteq> ''POST''"
  shows "(req_method request \<noteq> ''OPTIONS'' \<longrightarrow>
            nova_fetch env request w =
              (Inr \<lparr>http_status = 405, headers = corsHeaders,
                    payload = Text ''Method not allowed''\<rparr>, w))
       \<and> ada_fetch templates env request w =
           (Inr \<lparr>http_status = 405, headers = [], payload = Text ''Method not allowed''\<rparr>, w)"
  using assms by (simp add: nova_fetch_def ada_fetch_def ret_def)

theorem not_allowed_witness:
  "req_method sample_put \<noteq> ''GET'' \<and> req_method sample_put \<noteq> ''POST''
   \<and> req_method sample_put \<noteq> ''OPTIONS''
   \<and> nova_fetch sample_env sample_put sample_world =
       (Inr \<lparr>http_status = 405, headers = corsHeaders, payload = Text ''Method not allowed''\<rparr>,
        sample_world)
   \<and> ada_fetch sample_templates sample_env sample_put sample_world =
       (Inr \<lparr>http_status = 405, headers = [], payload = Text ''Method not allowed''\<rparr>,
        sample_world)"
  using not_allowed[of sample_put sample_env sample_world sample_templates]
  by (simp add: sample_put_def)

text \<open>
  The claim as stated fails: the body of the 405 response to a PUT is a text, not a JSON
  document, so it does not match the contract.
\<close>

theorem not_allowed_counterexample:
  "fst (nova_fetch sample_env sample_put sample_world) =
     Inr \<lparr>http_status = 405, headers = corsHeaders, payload = Text ''Method not allowed''\<rparr>
   \<and> json_document (Text ''Method not allowed'') = None
   \<and> \<not> agent_response
         (received \<lparr>http_status = 405, headers = corsHeaders,
                    payload = Text ''Method not allowed''\<rparr>)"
  by code_simp

subsection \<open>Ada and the execution log\<close>

text \<open>
  C10. Ada never writes to the execution log. For every request (any method, any body,
  whatever the e-mail templates and the e-mail service do) the handler returns a
  response, the store is as it was before, and the handler has made no outbound call or
  exactly one, the e-mail send. It reads the clock at most once (for the submission date
  of a form that has none).
\<close>

theorem ada_never_logs:
  "\<exists>r w'. ada_fetch templates env request w = (Inr r, w') \<and> db w' = db w
      \<and> (tick w' = tick w \<or> tick w' = Suc (tick w))
      \<and> (collab_log w' = collab_log w
          \<or> (\<exists>body. collab_log w' = collab_log w @ [ResendEmail (var (RESEND_API_KEY env)) body]))"
proof (cases "req_method request = ''POST''")
  case False
  then show ?thesis by (simp add: ada_fetch_def ret_def)
next
  case True
  then have "ada_fetch templates env request = ada_post templates env request"
    by (simp add: ada_fetch_def)
  then show ?thesis using ada_post_frame by simp
qed

subsection \<open>A failure of the domain logic\<close>

text \<open>
  C3, as the code has it. When the request is a POST whose body is parsed and the domain
  logic raises a failure \<open>e\<close>, Nova answers HTTP 500 with \<open>success: false\<close>,
  \<open>output: null\<close> and \<open>error\<close> equal to the message of \<open>e\<close>, whatever the
  store does. When the worker is configured for the store, the store serves the two
  writes of the invocation and gives the new record a new, non-empty identifier, exactly
  one record is added to the table: it is in state error, its \<open>error_message\<close> is
  the message of \<open>e\<close>, its \<open>duration_ms\<close> is the clock reading of the catch block
  minus the reading taken at the start, and the response names it as \<open>executionId\<close>.
\<close>

theorem failure_logged:
  assumes "req_method request = ''POST''"
    and "fst (parse_input request w) = Inr (t, p, st)"
    and "fst (domain_logic env t p st w) = Inl e"
  shows "\<exists>xid ts.
      fst (nova_fetch env request w) =
        Inr \<lparr>http_status = 500, headers = corsHeaders @ json_header,
             payload = Json (envelope False Null (Str (message e)) xid ts)\<rparr>
      \<and> (configured env (db w) \<and> serving 2 (outages (db w)) \<and> next_id_fresh (db w)
           \<and> next_id (db w) \<noteq> [] \<longrightarrow>
         (\<exists>r. executions (db (snd (nova_fetch env request w))) = executions (db w) @ [r]
             \<and> xid = Str (exec_id r)
             \<and> status r = Str ''error''
             \<and> error_message r = Str (message e)
             \<and> duration_ms r = Num (wall w (tick w + 2) - wall w (tick w))))"
proof -
  have post: "nova_fetch env request = nova_post env request"
    using assms(1) by (simp add: nova_fetch_def)
  have out: "nova_outcome env request w = Inl e"
    using assms(2,3) by (simp add: nova_outcome_def)
  show ?thesis
  proof (cases "configured env (db w) \<and> serving 2 (outages (db w)) \<and> next_id_fresh (db w)
           \<and> next_id (db w) \<noteq> []")
    case False
    obtain xid where "fst (nova_post env request w) =
        Inr (nova_reply (nova_outcome env request w) xid (stamp request w))"
      using nova_post_shape by blast
    then have "fst (nova_post env request w) =
        Inr \<lparr>http_status = 500, headers = corsHeaders @ json_header,
             payload = Json (envelope False Null (Str (message e)) xid (stamp request w))\<rparr>"
      using out by (simp add: nova_reply_def)
    with False show ?thesis
      unfolding post by blast
  next
    case True
    let ?w0 = "w\<lparr>tick := Suc (tick w)\<rparr>"
    let ?i = "next_id (db w)"
    have c0: "configured env (db ?w0)" and s0: "serving (Suc (Suc 0)) (outages (db ?w0))"
      using True serving_2 by simp_all
    obtain r where st: "nova_start env t p st ?w0 =
        (Inr (js_or (Str (next_id (db ?w0))) Null),
         ?w0\<lparr>db := (db ?w0)\<lparr>executions := executions (db ?w0) @ [r],
                          outages := tl (outages (db ?w0)),
                          journal := journal (db ?w0) @ [Created r]\<rparr>,
            tick := Suc (tick ?w0)\<rparr>)"
      and r: "exec_id r = next_id (db ?w0)" "status r = Str ''running''"
      using nova_start_served[OF c0 s0, of t p st] by blast
    let ?s1 = "(db w)\<lparr>executions := executions (db w) @ [r],
                          outages := tl (outages (db w)),
                          journal := journal (db w) @ [Created r]\<rparr>"
    have st': "nova_start env t p st ?w0 = (Inr (Str ?i), w\<lparr>db := ?s1, tick := Suc (Suc (tick w))\<rparr>)"
      using st True by (simp add: js_or_def)
    let ?d = "domain_logic env t p st w"
    let ?W = "(snd ?d)\<lparr>db := ?s1, tick := Suc (Suc (tick w))\<rparr>"
    have run: "nova_post env request w = nova_catch env (Str ?i) (wall w (tick w)) e ?W"
      using nova_post_end[OF assms(2) st'] assms(3) by (simp add: nova_end_def)
    have keep: "iso (snd ?d) = iso w" "wall (snd ?d) = wall w"
      using domain_logic_keeps by auto
    let ?dur = "wall w (Suc (Suc (tick w))) - wall w (tick w)"
    let ?ps = "sent_props [(''status'', Str ''error''), (''error_message'', Str (message e)),
                           (''duration_ms'', Num ?dur)]"
    let ?F = "db (snd (nova_catch env (Str ?i) (wall w (tick w)) e ?W))"
    have s1: "serving (Suc 0) (outages ?s1)"
      using serving_Suc(2)[OF s0] by simp
    have key: "to_str (var (SUPABASE_KEY env)) = api_key ?s1"
      and url: "to_str (var (SUPABASE_URL env)) = base_url ?s1"
      using True by (simp_all add: configured_def var_def)
    have up: "updated ?i ?ps ?s1 ?F"
      using terminal_write_error[of "var (SUPABASE_URL env)" "var (SUPABASE_KEY env)"
              "?W\<lparr>tick := Suc (tick ?W)\<rparr>" ?i "Str (message e)" "Num ?dur",
              OF printable_var printable_var] True s1 key url keep
      unfolding nova_catch_db by simp
    have new: "?i \<notin> set (map exec_id (executions (db w)))"
      using True by (simp add: next_id_fresh_def)
    have rows: "executions ?F = executions (db w) @ [patched ?ps r]"
      using updated_new_record(1)[OF up, of "executions (db w)" r "journal (db w)"] r new by simp
    obtain D where resp: "nova_catch env (Str ?i) (wall w (tick w)) e ?W =
       (Inr \<lparr>http_status = 500, headers = corsHeaders @ json_header,
             payload = Json (envelope False Null (Str (message e)) (Str ?i)
                               (Str (iso ?W (wall ?W (Suc (tick ?W))))))\<rparr>,
        ?W\<lparr>db := D, tick := Suc (Suc (tick ?W))\<rparr>)"
      using nova_catch_shape[of env "Str ?i" "wall w (tick w)" e ?W] by auto
    have "fst (nova_post env request w) =
        Inr \<lparr>http_status = 500, headers = corsHeaders @ json_header,
             payload = Json (envelope False Null (Str (message e)) (Str ?i)
                               (Str (iso ?W (wall ?W (Suc (tick ?W))))))\<rparr>"
      unfolding run using resp by simp
    moreover have "executions (db (snd (nova_post env request w))) = executions (db w) @ [patched ?ps r]
        \<and> Str ?i = Str (exec_id (patched ?ps r))
        \<and> status (patched ?ps r) = Str ''error''
        \<and> error_message (patched ?ps r) = Str (message e)
        \<and> duration_ms (patched ?ps r) = Num (wall w (tick w + 2) - wall w (tick w))"
      unfolding run using rows r by (simp add: patched_error)
    ultimately show ?thesis
      unfolding post by blast
  qed
qed

theorem failure_logged_witness:
  "req_method sample_post = ''POST''
   \<and> fst (parse_input sample_post busy_world) = Inr (Str ''pricing'', Str ''LinkedIn'', Undefined)
   \<and> fst (domain_logic sample_env (Str ''pricing'') (Str ''LinkedIn'') Undefined busy_world)
       = Inl (JsError ''Error''
               (''Claude API error (529): '' @ stringify (Obj [(''message'', Str ''overloaded'')])))
   \<and> configured sample_env (db busy_world) \<and> serving 2 (outages (db busy_world))
   \<and> next_id_fresh (db busy_world) \<and> next_id (db busy_world) \<noteq> []
   \<and> (\<exists>xid ts r.
        fst (nova_fetch sample_env sample_post busy_world) =
          Inr \<lparr>http_status = 500, headers = corsHeaders @ json_header,
               payload = Json (envelope False Null
                 (Str (''Claude API error (529): '' @ stringify (Obj [(''message'', Str ''overloaded'')])))
                 xid ts)\<rparr>
        \<and> executions (db (snd (nova_fetch sample_env sample_post busy_world)))
            = executions (db busy_world) @ [r]
        \<and> xid = Str (exec_id r) \<and> status r = Str ''error''
        \<and> error_message r
            = Str (''Claude API error (529): '' @ stringify (Obj [(''message'', Str ''overloaded'')]))
        \<and> duration_ms r = Num (wall busy_world (tick busy_world + 2) - wall busy_world (tick busy_world)))"
proof -
  let ?e = "JsError ''Error''
               (''Claude API error (529): '' @ stringify (Obj [(''message'', Str ''overloaded'')]))"
  have a: "req_method sample_post = ''POST''"
    by (simp add: sample_post_def)
  have b: "fst (parse_input sample_post busy_world) = Inr (Str ''pricing'', Str ''LinkedIn'', Undefined)"
    by code_simp
  have c: "fst (domain_logic sample_env (Str ''pricing'') (Str ''LinkedIn'') Undefined busy_world) = Inl ?e"
    by code_simp
  have d: "configured sample_env (db busy_world)" "serving 2 (outages (db busy_world))"
    "next_id_fresh (db busy_world)" "next_id (db busy_world) \<noteq> []"
    by (simp_all add: configured_def sample_env_def busy_world_def sample_world_def
          sample_store_def next_id_fresh_def next_id_def eval_nat_numeral)
  show ?thesis
    using failure_logged[OF a b c] a b c d by auto
qed

text \<open>
  The claim as stated fails. With the store unreachable the same failure is answered
  with 500 and its message, and no record at all is created. With a wall clock that is
  set back during the invocation the record gets a negative duration.
\<close>

theorem failure_logged_counterexample:
  "fst (nova_fetch sample_env sample_post cut_off_world) =
     Inr \<lparr>http_status = 500, headers = corsHeaders @ json_header,
          payload = Json (envelope False Null
            (Str (''Claude API error (529): '' @ stringify (Obj [(''message'', Str ''overloaded'')])))
            Null (Str ''T1003''))\<rparr>
   \<and> executions (db (snd (nova_fetch sample_env sample_post cut_off_world))) = []
   \<and> map status (executions (db (snd (nova_fetch sample_env sample_post backward_world))))
       = [Str ''error'']
   \<and> map duration_ms (executions (db (snd (nova_fetch sample_env sample_post backward_world))))
       = [Num (- 10)]"
  by code_simp

subsection \<open>The lifecycle of an execution record\<close>

text \<open>
  C5. When the store fails honestly (a call it does not serve is rejected or answered
  with a non-2xx status) and the identifier it gives to the next record is not in the
  table, the writes of one invocation of Nova follow the lifecycle: none; or one record
  created in state running; or that record created and then updated once, to success or
  to error. The table after the invocation is the table before it, every record as it
  was, followed by the record of this invocation if one was created: no transition
  leaves a terminal state and nothing is deleted.
\<close>

theorem execution_lifecycle:
  assumes "honest (outages (db w))" and "next_id_fresh (db w)"
  shows "\<exists>evs. journal (db (snd (nova_fetch env request w))) = journal (db w) @ evs
       \<and> lifecycle (map exec_id (executions (db w))) evs
       \<and> executions (db (snd (nova_fetch env request w))) = executions (db w) @ recorded evs"
proof (cases "req_method request = ''POST''")
  case False
  then have "snd (nova_fetch env request w) = w"
    by (simp add: nova_fetch_def ret_def)
  then show ?thesis by (intro exI[of _ "[]"]) simp
next
  case True
  then have post: "nova_fetch env request = nova_post env request"
    by (simp add: nova_fetch_def)
  show ?thesis
  proof (cases "fst (parse_input request w)")
    case (Inl e)
    then show ?thesis
      unfolding post by (intro exI[of _ "[]"]) (simp add: nova_post_unparsed)
  next
    case (Inr x)
    obtain t p st where x: "fst (parse_input request w) = Inr (t, p, st)"
      using Inr by (cases x) auto
    let ?w0 = "w\<lparr>tick := Suc (tick w)\<rparr>"
    have h0: "honest (outages (db ?w0))" using assms(1) by simp
    obtain v s1 where st: "nova_start env t p st ?w0 = (Inr v, ?w0\<lparr>db := s1, tick := Suc (tick ?w0)\<rparr>)"
      and base: "base_url s1 = base_url (db w)"
      and alt: "(v = Null \<and> executions s1 = executions (db w) \<and> journal s1 = journal (db w))
         \<or> (\<exists>r. to_str (var (SUPABASE_URL env)) = base_url (db w)
               \<and> v = js_or (Str (next_id (db w))) Null
               \<and> exec_id r = next_id (db w) \<and> status r = Str ''running''
               \<and> executions s1 = executions (db w) @ [r]
               \<and> journal s1 = journal (db w) @ [Created r])"
      using nova_start_cases[OF h0, of env t p st] by auto
    let ?W = "(snd (domain_logic env t p st w))\<lparr>db := s1, tick := Suc (Suc (tick w))\<rparr>"
    let ?r = "fst (domain_logic env t p st w)"
    have run: "nova_post env request w = nova_end env v (wall w (tick w)) ?r ?W"
      using nova_post_end[OF x, of env v s1] st by simp
    have dbW: "db ?W = s1" by simp
    from alt show ?thesis
    proof
      assume a: "v = Null \<and> executions s1 = executions (db w) \<and> journal s1 = journal (db w)"
      then have "db (snd (nova_end env v (wall w (tick w)) ?r ?W)) = s1"
        using nova_end_cases(1)[OF dbW, of v] by simp
      then show ?thesis
        unfolding post run using a by (intro exI[of _ "[]"]) simp
    next
      assume "\<exists>r. to_str (var (SUPABASE_URL env)) = base_url (db w)
               \<and> v = js_or (Str (next_id (db w))) Null
               \<and> exec_id r = next_id (db w) \<and> status r = Str ''running''
               \<and> executions s1 = executions (db w) @ [r]
               \<and> journal s1 = journal (db w) @ [Created r]"
      then obtain r where addr: "to_str (var (SUPABASE_URL env)) = base_url (db w)"
        and v: "v = js_or (Str (next_id (db w))) Null"
        and r: "exec_id r = next_id (db w)" "status r = Str ''running''"
        and s1: "executions s1 = executions (db w) @ [r]" "journal s1 = journal (db w) @ [Created r]"
        by blast
      have new: "exec_id r \<notin> set (map exec_id (executions (db w)))"
        using assms(2) r(1) by (simp add: next_id_fresh_def)
      show ?thesis
      proof (cases "next_id (db w) = []")
        case True
        then have "db (snd (nova_end env v (wall w (tick w)) ?r ?W)) = s1"
          using nova_end_cases(1)[OF dbW, of v] v by (simp add: js_or_def)
        then show ?thesis
          unfolding post run using s1 r new by (intro exI[of _ "[Created r]"]) simp
      next
        case False
        then have v': "v = Str (next_id (db w))" using v by (simp add: js_or_def)
        obtain ps where ps: "terminal_patch ps"
          and cases: "untouched s1 (db (snd (nova_end env v (wall w (tick w)) ?r ?W)))
              \<or> updated (next_id (db w)) ps s1 (db (snd (nova_end env v (wall w (tick w)) ?r ?W)))"
          using nova_end_cases(2)[OF dbW, of env "next_id (db w)"] addr base False v' by metis
        from cases show ?thesis
        proof
          assume "untouched s1 (db (snd (nova_end env v (wall w (tick w)) ?r ?W)))"
          then show ?thesis
            unfolding post run using s1 r new
            by (intro exI[of _ "[Created r]"]) (simp add: untouched_def)
        next
          assume u: "updated (next_id (db w)) ps s1 (db (snd (nova_end env v (wall w (tick w)) ?r ?W)))"
          have new': "next_id (db w) \<notin> set (map exec_id (executions (db w)))"
            using new r(1) by simp
          show ?thesis
            unfolding post run
            using updated_new_record[OF u s1 r(1) new'] r new ps
            by (intro exI[of _ "[Created r, Updated (next_id (db w)) ps]"]) simp
        qed
      qed
    qed
  qed
qed

theorem execution_lifecycle_witness:
  "honest (outages (db sample_world)) \<and> next_id_fresh (db sample_world)
   \<and> (\<exists>evs. journal (db (snd (nova_fetch sample_env sample_post sample_world)))
               = journal (db sample_world) @ evs
        \<and> lifecycle (map exec_id (executions (db sample_world))) evs
        \<and> executions (db (snd (nova_fetch sample_env sample_post sample_world)))
            = executions (db sample_world) @ recorded evs)"
proof -
  have a: "honest (outages (db sample_world))" "next_id_fresh (db sample_world)"
    by (simp_all add: sample_world_def sample_store_def next_id_fresh_def)
  show ?thesis
    using execution_lifecycle[OF a, of sample_env sample_post] a by simp
qed

text \<open>The sample request, served: one record, created running and updated to success.\<close>

lemma execution_lifecycle_sample:
  "map status (executions (db (snd (nova_fetch sample_env sample_post sample_world))))
     = [Str ''success'']
   \<and> length (journal (db (snd (nova_fetch sample_env sample_post sample_world)))) = 2"
  by code_simp

subsection \<open>Failures of the collaborators\<close>

text \<open>
  A request whose topic has no text: the prompt cannot be built, the LLM is not called,
  and the answer is 500 with the message of the TypeError.
\<close>

lemma prompt_failure_surfaces:
  assumes "req_method request = ''POST''"
    and "fst (parse_input request w) = Inr (t, p, st)"
    and "prompts env t p st w = Inl e"
  shows "\<exists>xid ts. fst (nova_fetch env request w) =
           Inr \<lparr>http_status = 500, headers = corsHeaders @ json_header,
                payload = Json (envelope False Null (Str (message e)) xid ts)\<rparr>"
proof -
  have post: "nova_fetch env request = nova_post env request"
    using assms(1) by (simp add: nova_fetch_def)
  obtain xid where shape: "fst (nova_post env request w) =
      Inr (nova_reply (nova_outcome env request w) xid (stamp request w))"
    using nova_post_shape by blast
  have "nova_outcome env request w = Inl e"
    using assms(2) domain_logic_unbuilt[OF assms(3)] by (simp add: nova_outcome_def)
  then show ?thesis
    unfolding post using shape by (auto simp: nova_reply_def)
qed

lemma prompt_failure_sample:
  "fst (nova_fetch sample_env textless_post sample_world) =
     Inr \<lparr>http_status = 500, headers = corsHeaders @ json_header,
          payload = Json (envelope False Null (Str ''Cannot convert object to primitive value'')
            (Str ''row-0'') (Str ''T1003''))\<rparr>
   \<and> filter (\<lambda>req. \<not> is_knowledge req)
        (collab_log (snd (nova_fetch sample_env textless_post sample_world))) = []"
  by code_simp




subsection \<open>The active conversation of a user\<close>

text \<open>
  For a user identifier that is URL-safe. Called with the address and the key of the
  store and with the store serving, \<open>getOrCreateConversation\<close> returns a conversation
  of this user in state active: when the user has none it creates one (the table grows
  by this record), otherwise it returns the most recent one and creates nothing. A second
  call right after returns the same record and leaves the table as it is.
\<close>

lemma conversation_idempotent_safe:
  assumes "serving 3 (outages (db w))" and "url_safe u"
  shows "\<exists>c w1 w2.
      getOrCreateConversation (Str (base_url (db w))) (Str (api_key (db w))) (Str u) w
        = (Inr (conversation_json c), w1)
      \<and> user_id c = Str u \<and> conv_status c = Str ''active''
      \<and> conversations (db w1) = (if actives u (db w) = [] then conversations (db w) @ [c]
                                   else conversations (db w))
      \<and> getOrCreateConversation (Str (base_url (db w))) (Str (api_key (db w))) (Str u) w1
        = (Inr (conversation_json c), w2)
      \<and> conversations (db w2) = conversations (db w1)"
proof -
  have s3: "serving (Suc (Suc (Suc 0))) (outages (db w))"
    using assms(1) by (simp add: eval_nat_numeral)
  consider (none) "actives u (db w) = []"
    | (some) c where "actives u (db w) = [c]" "user_id c = Str u" "conv_status c = Str ''active''"
    using actives_cases[of u "db w"] by blast
  then show ?thesis
  proof cases
    case some
    let ?w1 = "w\<lparr>db := (db w)\<lparr>outages := tl (outages (db w))\<rparr>\<rparr>"
    have first: "getOrCreateConversation (Str (base_url (db w))) (Str (api_key (db w))) (Str u) w =
        (Inr (conversation_json c), ?w1)"
      by (rule conversation_found[OF s3 some(1) assms(2)])
    have s2: "serving (Suc (Suc 0)) (outages (db ?w1))"
      using serving_Suc(2)[OF s3] by simp
    have a1: "actives u (db ?w1) = [c]" using some(1) by simp
    have second: "getOrCreateConversation (Str (base_url (db ?w1))) (Str (api_key (db ?w1))) (Str u) ?w1 =
        (Inr (conversation_json c), ?w1\<lparr>db := (db ?w1)\<lparr>outages := tl (outages (db ?w1))\<rparr>\<rparr>)"
      by (rule conversation_found[OF s2 a1 assms(2)])
    show ?thesis
      using first second some
      by (intro exI[of _ c] exI[of _ ?w1]
            exI[of _ "?w1\<lparr>db := (db ?w1)\<lparr>outages := tl (outages (db ?w1))\<rparr>\<rparr>"]) simp
  next
    case none
    let ?c = "opened (db w) u (Str (iso w (wall w (tick w))))"
    let ?w1 = "w\<lparr>db := (db w)\<lparr>conversations := conversations (db w) @ [?c],
                       outages := tl (tl (outages (db w))),
                       journal := journal (db w) @ [Opened ?c]\<rparr>,
         tick := Suc (tick w)\<rparr>"
    have first: "getOrCreateConversation (Str (base_url (db w))) (Str (api_key (db w))) (Str u) w =
        (Inr (conversation_json ?c), ?w1)"
      by (rule conversation_opened[OF s3 none assms(2)])
    have s1: "serving (Suc 0) (outages (db ?w1))"
      using serving_Suc(2)[OF s3] serving_Suc(2)[of "Suc 0" "(db w)\<lparr>outages := tl (outages (db w))\<rparr>"]
      by simp
    have "filter (\<lambda>c. user_id c = Str u \<and> conv_status c = Str ''active'') (conversations (db w)) = []"
      using none actives_empty by blast
    then have a1: "actives u (db ?w1) = [?c]"
      by (simp add: actives_def opened_def)
    have second: "getOrCreateConversation (Str (base_url (db ?w1))) (Str (api_key (db ?w1))) (Str u) ?w1 =
        (Inr (conversation_json ?c), ?w1\<lparr>db := (db ?w1)\<lparr>outages := tl (outages (db ?w1))\<rparr>\<rparr>)"
      by (rule conversation_found[OF s1 a1 assms(2)])
    show ?thesis
      using first second none
      by (intro exI[of _ ?c] exI[of _ ?w1]
            exI[of _ "?w1\<lparr>db := (db ?w1)\<lparr>outages := tl (outages (db ?w1))\<rparr>\<rparr>"])
         (simp add: opened_def)
  qed
qed

lemma conversation_idempotent_sample:
  "url_safe ''jacob@jacobbrain.com''
   \<and> fst (getOrCreateConversation (Str ''https://db.example'') (Str ''service-key'')
          (Str ''jacob@jacobbrain.com'') sample_world)
     = Inr (Obj [(''id'', Str ''row-0''), (''user_id'', Str ''jacob@jacobbrain.com''),
                 (''status'', Str ''active''), (''created_at'', Str ''T1000'')])
   \<and> fst (getOrCreateConversation (Str ''https://db.example'') (Str ''service-key'')
            (Str ''jacob@jacobbrain.com'')
            (snd (getOrCreateConversation (Str ''https://db.example'') (Str ''service-key'')
                    (Str ''jacob@jacobbrain.com'') sample_world)))
     = Inr (Obj [(''id'', Str ''row-0''), (''user_id'', Str ''jacob@jacobbrain.com''),
                 (''status'', Str ''active''), (''created_at'', Str ''T1000'')])
   \<and> map conv_id (conversations (db (snd (getOrCreateConversation (Str ''https://db.example'')
        (Str ''service-key'') (Str ''jacob@jacobbrain.com'')
        (snd (getOrCreateConversation (Str ''https://db.example'') (Str ''service-key'')
                (Str ''jacob@jacobbrain.com'') sample_world)))))) = [''row-0'']"
  by code_simp

text \<open>
  C9 at the user identifier \<open>jacob#1234\<close>. The function writes the identifier into
  the query of the lookup as it is, and into the body of the insert as JSON. The store
  gets the lookup without what follows the \<open>#\<close>: it looks for the conversations of
  \<open>jacob\<close>, in any state. On the empty table the first call finds nothing and
  creates the record \<open>row-0\<close> for \<open>jacob#1234\<close>; the second call finds nothing
  again and creates \<open>row-1\<close>: two records, and two different answers. On a table
  that holds a closed conversation of the user \<open>jacob\<close>, the call answers with that
  record of another user.
\<close>

theorem conversation_repeated:
  "fst (getOrCreateConversation (Str ''https://db.example'') (Str ''service-key'')
          (Str ''jacob#1234'') sample_world)
     = Inr (Obj [(''id'', Str ''row-0''), (''user_id'', Str ''jacob#1234''),
                 (''status'', Str ''active''), (''created_at'', Str ''T1000'')])
   \<and> fst (getOrCreateConversation (Str ''https://db.example'') (Str ''service-key'')
            (Str ''jacob#1234'')
            (snd (getOrCreateConversation (Str ''https://db.example'') (Str ''service-key'')
                    (Str ''jacob#1234'') sample_world)))
     = Inr (Obj [(''id'', Str ''row-1''), (''user_id'', Str ''jacob#1234''),
                 (''status'', Str ''active''), (''created_at'', Str ''T1001'')])
   \<and> map conv_id (conversations (db (snd (getOrCreateConversation (Str ''https://db.example'')
        (Str ''service-key'') (Str ''jacob#1234'')
        (snd (getOrCreateConversation (Str ''https://db.example'') (Str ''service-key'')
                (Str ''jacob#1234'') sample_world)))))) = [''row-0'', ''row-1'']
   \<and> fst (getOrCreateConversation (Str ''https://db.example'') (Str ''service-key'')
            (Str ''jacob#1234'') shared_world)
     = Inr (Obj [(''id'', Str ''conv-9''), (''user_id'', Str ''jacob''),
                 (''status'', Str ''closed''), (''created_at'', Str ''T0900'')])"
  by code_simp

end
